theory Spec2Isabelle
  imports Complex_Main
begin

section \<open>Python values, effects and the external library\<close>

text \<open>
  The module \<^verbatim>\<open>healthcareai/common/model_eval.py\<close> is orchestration around
  scikit-learn, numpy, pandas and matplotlib. The embedding keeps the control flow of
  the module as it is written and makes its effects explicit:
  \<^item> a call returns the console/plot/fit/file events it emitted, the pickle files it
    leaves behind, and either the error it raised (\<open>Inl\<close>) or its value (\<open>Inr\<close>);
  \<^item> the external library is a record of functions, one field per library call of the
    module; a field returns \<open>None\<close> where the library raises;
  \<^item> numbers are \<open>real\<close> (floating point rounding and NaN are outside the model).
\<close>

datatype error =
    Exception string   \<comment> \<open>an explicit \<^verbatim>\<open>raise Exception(msg)\<close> of the module\<close>
  | LibraryError       \<comment> \<open>whatever the external library raises\<close>
  | AttributeError
  | IndexError
  | TypeError
  | ValueError
  | UnboundLocalError
  | FileNotFoundError

text \<open>An argument that the code tests with \<^verbatim>\<open>is True\<close> / \<^verbatim>\<open>is False\<close>.\<close>

datatype flag = PyTrue | PyFalse | PyOther

text \<open>
  Estimator objects. \<open>Obj a\<close> is an object whose content is opaque to the module (a
  caller-supplied algorithm, a fitted model, an unpickled model); the other constructors
  are the three constructor calls the module makes itself.
\<close>

datatype ('a, 'p) clf =
    Obj 'a
  | GridSearchCV "('a, 'p) clf" 'p nat string int   \<comment> \<open>estimator, grid, cv, scoring, n\_jobs\<close>
  | LogisticRegression
  | LinearRegression

record dataframe =
  df_values :: "real list list"
  df_columns :: "string list"

datatype ndarray = A1 "real list" | A2 "real list list"

datatype ('a, 'p) item =
    Str string
  | Num real
  | Arr "real list"
  | Mat "real list list"
  | Nd ndarray
  | Est "('a, 'p) clf"
  | NoneItem
  | Par 'p
  | Fmt string "real list"                 \<comment> \<open>\<^verbatim>\<open>fmt % args\<close>, numeric arguments\<close>
  | FmtS string "string list"              \<comment> \<open>\<^verbatim>\<open>fmt % args\<close>, string arguments\<close>
  | Tbl "(string \<times> string list) list"      \<comment> \<open>a printed \<^verbatim>\<open>pd.DataFrame\<close>\<close>

datatype ('a, 'p) event =
    Print "('a, 'p) item list"
  | Fit "('a, 'p) clf" dataframe "real list"
  | Load string
  | Save string "('a, 'p) clf"
  | Plt string

record ('a, 'p) sklearn =
  fit :: "('a, 'p) clf \<Rightarrow> dataframe \<Rightarrow> real list \<Rightarrow> ('a, 'p) clf option"
  predict_proba :: "('a, 'p) clf \<Rightarrow> dataframe \<Rightarrow> real list list option"
  predict :: "('a, 'p) clf \<Rightarrow> dataframe \<Rightarrow> real list option"
  best_params :: "('a, 'p) clf \<Rightarrow> 'p option"
  feature_importances :: "('a, 'p) clf \<Rightarrow> real list option"
  best_estimator :: "('a, 'p) clf \<Rightarrow> ('a, 'p) clf option"
  coef :: "('a, 'p) clf \<Rightarrow> ndarray option"
  roc_auc_score :: "real list \<Rightarrow> real list \<Rightarrow> real option"
  precision_recall_curve ::
    "real list \<Rightarrow> real list \<Rightarrow> (real list \<times> real list \<times> real list) option"
  roc_curve :: "real list \<Rightarrow> real list \<Rightarrow> (real list \<times> real list \<times> real list) option"
  auc :: "real list \<Rightarrow> real list \<Rightarrow> real option"
  average_precision_score :: "real list \<Rightarrow> real list \<Rightarrow> real option"
  mean_squared_error :: "real list \<Rightarrow> real list \<Rightarrow> real option"
  mean_absolute_error :: "real list \<Rightarrow> real list \<Rightarrow> real option"
  argsort :: "real list \<Rightarrow> nat list"
  write_feature_importances ::
    "real list \<Rightarrow> string list option \<Rightarrow> ('a, 'p) item list list option"

text \<open>
  Attributes (\<open>best_params\<close>, \<open>feature_importances\<close>, \<open>best_estimator\<close>, \<open>coef\<close>;
  the trailing underscore of the Python names is not an Isabelle identifier)
  return \<open>None\<close> where the object has no such attribute, so \<^verbatim>\<open>hasattr(clf, a)\<close> is
  \<open>a lib clf \<noteq> None\<close>. \<open>fit\<close> returns the object after fitting (Python mutates it in
  place and returns it).

  Modelled from the spec: \<^verbatim>\<open>write_feature_importances\<close> (module
  \<^verbatim>\<open>healthcareai.common.feature_importances\<close>, not part of the sources at hand)
  produces console output only; the field gives the lines it prints, or \<open>None\<close> where
  it raises.
\<close>

subsection \<open>Programs with events, files and errors\<close>

type_synonym ('a, 'p) files = "string \<rightharpoonup> ('a, 'p) clf"

type_synonym ('a, 'p, 'r) prog =
  "('a, 'p) files \<Rightarrow> ('a, 'p) event list \<times> ('a, 'p) files \<times> (error + 'r)"

definition out_of :: "'e list \<times> 'f \<times> 'x \<Rightarrow> 'e list" where
  "out_of r = fst r"

definition files_of :: "'e list \<times> 'f \<times> 'x \<Rightarrow> 'f" where
  "files_of r = fst (snd r)"

definition res_of :: "'e list \<times> 'f \<times> 'x \<Rightarrow> 'x" where
  "res_of r = snd (snd r)"

definition ret :: "'r \<Rightarrow> ('a, 'p, 'r) prog" where
  "ret x = (\<lambda>fs. ([], fs, Inr x))"

definition throw :: "error \<Rightarrow> ('a, 'p, 'r) prog" where
  "throw e = (\<lambda>fs. ([], fs, Inl e))"

definition emit :: "('a, 'p) event \<Rightarrow> ('a, 'p, unit) prog" where
  "emit ev = (\<lambda>fs. ([ev], fs, Inr ()))"

definition seq :: "('a, 'p, 'r) prog \<Rightarrow> ('r \<Rightarrow> ('a, 'p, 's) prog) \<Rightarrow> ('a, 'p, 's) prog" where
  "seq m k = (\<lambda>fs. case m fs of
       (out, fs1, Inl e) \<Rightarrow> (out, fs1, Inl e)
     | (out, fs1, Inr x) \<Rightarrow> (case k x fs1 of (out2, fs2, r) \<Rightarrow> (out @ out2, fs2, r)))"

definition then_do :: "('a, 'p, unit) prog \<Rightarrow> ('a, 'p, 's) prog \<Rightarrow> ('a, 'p, 's) prog" where
  "then_do m k = seq m (\<lambda>_. k)"

definition if_then :: "bool \<Rightarrow> ('a, 'p, unit) prog \<Rightarrow> ('a, 'p, unit) prog" where
  "if_then c m = (if c then m else ret ())"

definition lift :: "error + 'r \<Rightarrow> ('a, 'p, 'r) prog" where
  "lift v = (\<lambda>fs. ([], fs, v))"

definition print :: "('a, 'p) item list \<Rightarrow> ('a, 'p, unit) prog" where
  "print xs = emit (Print xs)"

fun print_lines :: "('a, 'p) item list list \<Rightarrow> ('a, 'p, unit) prog" where
  "print_lines [] = ret ()"
| "print_lines (l # ls) = then_do (print l) (print_lines ls)"

text \<open>A library call: \<open>None\<close> is the library raising.\<close>

definition lib_call :: "'r option \<Rightarrow> ('a, 'p, 'r) prog" where
  "lib_call v = (case v of None \<Rightarrow> throw LibraryError | Some x \<Rightarrow> ret x)"

text \<open>
  A metric of two array arguments called with Python values that may be \<^verbatim>\<open>None\<close>:
  scikit-learn's input validation rejects \<^verbatim>\<open>None\<close>.
\<close>

definition metric_call ::
  "(real list \<Rightarrow> real list \<Rightarrow> 'r option) \<Rightarrow> real list option \<Rightarrow> real list option
     \<Rightarrow> ('a, 'p, 'r) prog" where
  "metric_call f y_true y_score =
     (case (y_true, y_score) of
        (Some t, Some s) \<Rightarrow> lib_call (f t s)
      | _ \<Rightarrow> throw LibraryError)"

text \<open>Attribute access on an object: AttributeError where the attribute is missing.\<close>

definition attr :: "'r option \<Rightarrow> ('a, 'p, 'r) prog" where
  "attr v = (case v of None \<Rightarrow> throw AttributeError | Some x \<Rightarrow> ret x)"

text \<open>A local variable that may be unbound when it is read.\<close>

definition local_var :: "'r option \<Rightarrow> ('a, 'p, 'r) prog" where
  "local_var v = (case v of None \<Rightarrow> throw UnboundLocalError | Some x \<Rightarrow> ret x)"

definition nth_e :: "'x list \<Rightarrow> nat \<Rightarrow> error + 'x" where
  "nth_e xs i = (if i < length xs then Inr (xs ! i) else Inl IndexError)"

definition nl :: char where
  "nl = CHR 0x0A"

subsection \<open>Pickle files\<close>

text \<open>
  Modelled from the spec: \<^verbatim>\<open>save_object_as_pickle\<close> and \<^verbatim>\<open>load_pickle_file\<close>
  (module \<^verbatim>\<open>healthcareai.common.output_utilities\<close>, not part of the sources at hand)
  write and read a pickle file under the given name; reading a name that does not exist
  raises.
\<close>

definition save_object_as_pickle :: "string \<Rightarrow> ('a, 'p) clf \<Rightarrow> ('a, 'p, unit) prog" where
  "save_object_as_pickle filename object_to_pickle =
     (\<lambda>fs. ([Save filename object_to_pickle], fs(filename \<mapsto> object_to_pickle), Inr ()))"

definition load_pickle_file :: "string \<Rightarrow> ('a, 'p, ('a, 'p) clf) prog" where
  "load_pickle_file filename =
     (\<lambda>fs. ([Load filename], fs,
            (case fs filename of None \<Rightarrow> Inl FileNotFoundError | Some obj \<Rightarrow> Inr obj)))"


subsection \<open>Array helpers (numpy)\<close>

text \<open>\<^verbatim>\<open>m[:, j]\<close> on a two-dimensional array.\<close>

definition column :: "nat \<Rightarrow> real list list \<Rightarrow> error + real list" where
  "column j m = (if list_all (\<lambda>r. j < length r) m then Inr (map (\<lambda>r. r ! j) m)
                 else Inl IndexError)"

text \<open>
  \<^verbatim>\<open>np.squeeze\<close> on a one-dimensional array keeps its entries (an array of one entry
  becomes zero-dimensional; the list keeps that entry).
\<close>

definition squeeze :: "real list \<Rightarrow> real list" where
  "squeeze xs = xs"

definition math_sqrt :: "real \<Rightarrow> error + real" where
  "math_sqrt x = (if x < 0 then Inl ValueError else Inr (sqrt x))"

section \<open>clfreport\<close>

datatype ('a, 'p) report =
    Pred "real list option"                              \<comment> \<open>\<^verbatim>\<open>return y_pred\<close>\<close>
  | PredAuc "real list option" real                      \<comment> \<open>\<^verbatim>\<open>return y_pred, roc_auc\<close>\<close>
  | PredAucClf "real list option" real "('a, 'p) clf"    \<comment> \<open>\<^verbatim>\<open>return y_pred, roc_auc, clf\<close>\<close>

definition fit_call ::
  "('a, 'p) sklearn \<Rightarrow> ('a, 'p) clf \<Rightarrow> dataframe \<Rightarrow> real list
     \<Rightarrow> ('a, 'p, ('a, 'p) clf) prog" where
  "fit_call lib clf X y = then_do (emit (Fit clf X y)) (lib_call (fit lib clf X y))"

definition print_regression_metrics ::
  "('a, 'p) sklearn \<Rightarrow> real list option \<Rightarrow> real list option \<Rightarrow> real list option
     \<Rightarrow> ('a, 'p, unit) prog" where
  "print_regression_metrics lib y_pred y_pred_class y_test =
     then_do (print [Str ''##########################################################''])
    (then_do (print [Str ''Model accuracy:''])
    (seq (metric_call (mean_squared_error lib) y_test y_pred_class) (\<lambda>mse.
     seq (lift (math_sqrt mse)) (\<lambda>rmse.
     then_do (print [Str (nl # ''RMSE error:''), Num rmse])
    (seq (metric_call (mean_absolute_error lib) y_test y_pred) (\<lambda>mae.
     then_do (print [Str (nl # ''Mean absolute error:''), Num mae, Str [nl]])
             (print [Str ''##########################################################''])))))))"

definition print_classification_metrics :: "real \<Rightarrow> real \<Rightarrow> ('a, 'p, unit) prog" where
  "print_classification_metrics pr_auc roc_auc =
     then_do (print [Str (nl # ''Metrics:'')])
    (then_do (print [Str ''AU_ROC ScoreX:'', Num roc_auc])
             (print [Str (nl # ''AU_PR Score:''), Num pr_auc]))"

text \<open>
  Lines 68 to 80: fitting and scoring in development mode. The result is the fitted
  object bound to \<open>clf\<close>, \<open>y_pred\<close>, and \<open>roc_auc\<close> (\<open>None\<close> while it is unbound).
\<close>

definition clfreport_yesdev_score ::
  "('a, 'p) sklearn \<Rightarrow> string \<Rightarrow> ('a, 'p) clf \<Rightarrow> dataframe \<Rightarrow> real list \<Rightarrow> dataframe
     \<Rightarrow> real list option \<Rightarrow> real list option \<Rightarrow> real list option
     \<Rightarrow> ('a, 'p, ('a, 'p) clf \<times> real list option \<times> real option) prog" where
  "clfreport_yesdev_score lib modeltype clf X_train y_train X_test y_test y_pred y_pred_class =
     (if modeltype = ''classification'' then
        seq (fit_call lib clf X_train y_train) (\<lambda>clf.
        seq (lib_call (predict_proba lib clf X_test)) (\<lambda>proba.
        seq (lift (column 1 proba)) (\<lambda>col.
        let y_pred = squeeze col in
        seq (metric_call (roc_auc_score lib) y_test (Some y_pred)) (\<lambda>roc_auc.
        seq (metric_call (precision_recall_curve lib) y_test (Some y_pred))
          (\<lambda>(precision, recall, thresholds).
        seq (lib_call (auc lib recall precision)) (\<lambda>pr_auc.
        then_do (print_classification_metrics pr_auc roc_auc)
                (ret (clf, Some y_pred, Some roc_auc))))))))
      else if modeltype = ''regression'' then
        seq (fit_call lib clf X_train y_train) (\<lambda>clf.
        seq (lib_call (predict lib clf X_test)) (\<lambda>y_pred.
        then_do (print_regression_metrics lib (Some y_pred) y_pred_class y_test)
                (ret (clf, Some y_pred, None))))
      else ret (clf, y_pred, None))"

text \<open>
  Lines 82 to 106, and line 123 where none of the three branches returns.
\<close>

definition clfreport_yesdev_return ::
  "('a, 'p) sklearn \<Rightarrow> bool \<Rightarrow> string list option \<Rightarrow> ('a, 'p) clf \<Rightarrow> real list option
     \<Rightarrow> real option \<Rightarrow> ('a, 'p, ('a, 'p) report) prog" where
  "clfreport_yesdev_return lib tune col_list clf y_pred roc_auc =
     then_do
       (if best_params lib clf \<noteq> None \<and> tune then
          then_do (print [Str ''Best hyper-parameters found after tuning:''])
         (seq (attr (best_params lib clf)) (\<lambda>ps. print [Par ps]))
        else print [Str ''No hyper-parameter tuning was done.''])
       (if feature_importances lib clf = None \<and> best_estimator lib clf = None then
          seq (local_var roc_auc) (\<lambda>roc_auc. ret (PredAuc y_pred roc_auc))
        else if feature_importances lib clf \<noteq> None then
          seq (attr (feature_importances lib clf)) (\<lambda>imp.
          seq (lib_call (write_feature_importances lib imp col_list)) (\<lambda>ls.
          then_do (print_lines ls)
         (seq (local_var roc_auc) (\<lambda>roc_auc. ret (PredAucClf y_pred roc_auc clf)))))
        else
          seq (attr (best_estimator lib clf)) (\<lambda>best.
          if feature_importances lib best \<noteq> None then
            seq (attr (feature_importances lib best)) (\<lambda>imp.
            seq (lib_call (write_feature_importances lib imp col_list)) (\<lambda>ls.
            then_do (print_lines ls)
           (seq (local_var roc_auc) (\<lambda>roc_auc. ret (PredAucClf y_pred roc_auc clf)))))
          else ret (Pred y_pred)))"

text \<open>Lines 58 to 106: development mode.\<close>

definition clfreport_yesdev ::
  "('a, 'p) sklearn \<Rightarrow> string \<Rightarrow> bool \<Rightarrow> ('a, 'p) clf \<Rightarrow> dataframe \<Rightarrow> real list
     \<Rightarrow> dataframe \<Rightarrow> real list option \<Rightarrow> 'p \<Rightarrow> int \<Rightarrow> bool \<Rightarrow> string list option
     \<Rightarrow> ('a, 'p) clf \<Rightarrow> real list option \<Rightarrow> real list option
     \<Rightarrow> ('a, 'p, ('a, 'p) report) prog" where
  "clfreport_yesdev lib modeltype debug algo X_train y_train X_test y_test param cores tune
       col_list clf y_pred y_pred_class =
     (let clf = (if tune then GridSearchCV algo param 5 ''roc_auc'' cores else clf) in
      then_do (if_then debug
                (then_do (print [Str (nl # ''clf object right before fitting main model:'')])
                         (print [Est clf])))
     (then_do (print [Str [nl], Est algo])
     (seq (clfreport_yesdev_score lib modeltype clf X_train y_train X_test y_test
             y_pred y_pred_class)
        (\<lambda>(clf, y_pred, roc_auc).
           clfreport_yesdev_return lib tune col_list clf y_pred roc_auc))))"

text \<open>Lines 109 to 121, ending in line 123: production mode.\<close>

definition clfreport_notdev ::
  "('a, 'p) sklearn \<Rightarrow> string \<Rightarrow> bool \<Rightarrow> dataframe \<Rightarrow> real list \<Rightarrow> dataframe \<Rightarrow> flag
     \<Rightarrow> ('a, 'p) clf \<Rightarrow> real list option
     \<Rightarrow> ('a, 'p, ('a, 'p) report) prog" where
  "clfreport_notdev lib modeltype debug X_train y_train X_test use_saved_model clf y_pred =
     seq (if use_saved_model = PyTrue then load_pickle_file ''probability.pkl''
          else
            then_do (if_then debug
                      (print [Str (nl # ''clf object right before fitting main model:'')]))
           (seq (fit_call lib clf X_train y_train) (\<lambda>clf.
            then_do (save_object_as_pickle ''probability.pkl'' clf) (ret clf))))
       (\<lambda>clf.
          if modeltype = ''classification'' then
            seq (lib_call (predict_proba lib clf X_test)) (\<lambda>proba.
            seq (lift (column 1 proba)) (\<lambda>col. ret (Pred (Some (squeeze col)))))
          else if modeltype = ''regression'' then
            seq (lib_call (predict lib clf X_test)) (\<lambda>y_pred. ret (Pred (Some y_pred)))
          else ret (Pred y_pred))"

definition clfreport ::
  "('a, 'p) sklearn \<Rightarrow> string \<Rightarrow> bool \<Rightarrow> string \<Rightarrow> ('a, 'p) clf \<Rightarrow> dataframe \<Rightarrow> real list
     \<Rightarrow> dataframe \<Rightarrow> real list option \<Rightarrow> 'p \<Rightarrow> int \<Rightarrow> bool \<Rightarrow> flag \<Rightarrow> string list option
     \<Rightarrow> ('a, 'p, ('a, 'p) report) prog" where
  "clfreport lib modeltype debug devcheck algo X_train y_train X_test y_test param cores tune
       use_saved_model col_list =
     (let y_pred_class = None; y_pred = None; clf = algo in
      if devcheck = ''yesdev'' then
        clfreport_yesdev lib modeltype debug algo X_train y_train X_test y_test param cores tune
          col_list clf y_pred y_pred_class
      else if devcheck = ''notdev'' then
        clfreport_notdev lib modeltype debug X_train y_train X_test use_saved_model clf y_pred
      else ret (Pred y_pred))"

section \<open>find\_top\_three\_factors\<close>

definition bind_e :: "error + 'x \<Rightarrow> ('x \<Rightarrow> error + 'y) \<Rightarrow> error + 'y" where
  "bind_e v k = (case v of Inl e \<Rightarrow> Inl e | Inr x \<Rightarrow> k x)"

text \<open>
  numpy broadcasting of one dimension: equal sizes, or one of them is 1.
\<close>

definition bdim :: "nat \<Rightarrow> nat \<Rightarrow> nat option" where
  "bdim n r = (if n = r then Some n else if r = 1 then Some n else if n = 1 then Some r
               else None)"

definition ncols :: "real list list \<Rightarrow> nat" where
  "ncols C = (case C of [] \<Rightarrow> 0 | r # _ \<Rightarrow> length r)"

text \<open>
  \<^verbatim>\<open>X * C\<close> for arrays of shapes \<open>(n, m)\<close> and \<open>(r, k)\<close>; the result carries its
  number of columns, which its rows do not show when there are none.
\<close>

definition times_2d ::
  "nat \<Rightarrow> real list list \<Rightarrow> nat \<Rightarrow> real list list \<Rightarrow> error + nat \<times> real list list" where
  "times_2d m X k C =
     (case (bdim (length X) (length C), bdim m k) of
        (Some rows, Some cols) \<Rightarrow>
          Inr (cols,
               map (\<lambda>i. map (\<lambda>j. X ! (if length X = 1 then 0 else i) ! (if m = 1 then 0 else j)
                                  * C ! (if length C = 1 then 0 else i) ! (if k = 1 then 0 else j))
                             [0..<cols])
                   [0..<rows])
      | _ \<Rightarrow> Inl ValueError)"

text \<open>\<^verbatim>\<open>X_test.values * clf.coef_\<close>: a one-dimensional \<open>coef_\<close> is one row.\<close>

definition times_coef :: "dataframe \<Rightarrow> ndarray \<Rightarrow> error + nat \<times> real list list" where
  "times_coef X c =
     (case c of
        A1 v \<Rightarrow> times_2d (length (df_columns X)) (df_values X) (length v) [v]
      | A2 C \<Rightarrow> times_2d (length (df_columns X)) (df_values X) (ncols C) C)"

text \<open>\<^verbatim>\<open>len(res[:, 1])\<close>.\<close>

definition len_column1 :: "nat \<times> real list list \<Rightarrow> error + nat" where
  "len_column1 res = (if 1 < fst res then Inr (length (snd res)) else Inl IndexError)"

text \<open>
  The loop of lines 194 to 198 over the rows \<^verbatim>\<open>res[i]\<close>, in ascending \<open>i\<close>; the three
  lists are appended to.
\<close>

fun rank_rows ::
  "('a, 'p) sklearn \<Rightarrow> string list \<Rightarrow> real list list
     \<Rightarrow> string list \<times> string list \<times> string list
     \<Rightarrow> error + string list \<times> string list \<times> string list" where
  "rank_rows lib col_list [] acc = Inr acc"
| "rank_rows lib col_list (row # rest) (first_fact, second_fact, third_fact) =
     (let list_of_indexrankings = argsort lib (map uminus row) in
      bind_e (nth_e list_of_indexrankings 0) (\<lambda>i0.
      bind_e (nth_e col_list i0) (\<lambda>c0.
      bind_e (nth_e list_of_indexrankings 1) (\<lambda>i1.
      bind_e (nth_e col_list i1) (\<lambda>c1.
      bind_e (nth_e list_of_indexrankings 2) (\<lambda>i2.
      bind_e (nth_e col_list i2) (\<lambda>c2.
      rank_rows lib col_list rest
        (first_fact @ [c0], second_fact @ [c1], third_fact @ [c2]))))))))"

text \<open>\<^verbatim>\<open>for i in range(0, 3): print(res[i, :])\<close>.\<close>

fun print_res_rows :: "real list list \<Rightarrow> nat list \<Rightarrow> ('a, 'p, unit) prog" where
  "print_res_rows res [] = ret ()"
| "print_res_rows res (i # rest) =
     seq (lift (nth_e res i)) (\<lambda>row. then_do (print [Arr row]) (print_res_rows res rest))"

text \<open>A method or attribute of \<open>clf\<close>, which is \<^verbatim>\<open>None\<close> until it is bound.\<close>

definition the_object :: "('a, 'p) clf option \<Rightarrow> ('a, 'p, ('a, 'p) clf) prog" where
  "the_object clf = (case clf of None \<Rightarrow> throw AttributeError | Some c \<Rightarrow> ret c)"

definition coef_of :: "('a, 'p) sklearn \<Rightarrow> ('a, 'p) clf option \<Rightarrow> ('a, 'p, ndarray) prog" where
  "coef_of lib clf = seq (the_object clf) (\<lambda>c. attr (coef lib c))"

definition print_clf :: "('a, 'p) clf option \<Rightarrow> ('a, 'p, unit) prog" where
  "print_clf clf = (case clf of None \<Rightarrow> print [NoneItem] | Some c \<Rightarrow> print [Est c])"

text \<open>Lines 148 to 166: the model whose coefficients rank the factors.\<close>

definition factor_model ::
  "('a, 'p) sklearn \<Rightarrow> bool \<Rightarrow> dataframe \<Rightarrow> real list \<Rightarrow> dataframe \<Rightarrow> string \<Rightarrow> flag
     \<Rightarrow> ('a, 'p, ('a, 'p) clf option) prog" where
  "factor_model lib debug X_train y_train X_test model_type use_saved_model =
     (let clf = None;
          clf = (if model_type = ''classification'' then Some LogisticRegression
                 else if model_type = ''regression'' then Some LinearRegression
                 else clf)
      in
      if use_saved_model = PyTrue then
        seq (load_pickle_file ''factorlogit.pkl'') (\<lambda>c. ret (Some c))
      else if use_saved_model = PyFalse then
        then_do (if_then debug
                  (then_do (print [Str (nl # ''clf object right before fitting factor ranking model'')])
                           (print_clf clf)))
          (if model_type = ''classification'' then
             seq (the_object clf) (\<lambda>c.
             seq (fit_call lib c X_train y_train) (\<lambda>c.
             seq (lib_call (predict_proba lib c X_test)) (\<lambda>_. ret (Some c))))
           else if model_type = ''regression'' then
             seq (the_object clf) (\<lambda>c.
             seq (fit_call lib c X_train y_train) (\<lambda>c.
             seq (lib_call (predict lib c X_test)) (\<lambda>_.
             then_do (save_object_as_pickle ''factorlogit.pkl'' c) (ret (Some c)))))
           else ret clf)
      else ret clf)"

text \<open>
  Lines 168 to 206. \<^verbatim>\<open>X_test.loc[:3, :]\<close> is printed as the rows labelled 0 to 3 of
  the default integer index.
\<close>

definition rank_factors ::
  "('a, 'p) sklearn \<Rightarrow> bool \<Rightarrow> dataframe \<Rightarrow> ('a, 'p) clf option
     \<Rightarrow> ('a, 'p, string list \<times> string list \<times> string list) prog" where
  "rank_factors lib debug X_test clf =
     then_do (if_then debug
               (then_do (print [Str (nl # ''Coeffs right before multiplic. to determine top 3 factors'')])
               (seq (coef_of lib clf) (\<lambda>c.
                then_do (print [Nd c])
               (then_do (print [Str (nl # ''X_test right before this multiplication'')])
                        (print [Mat (take 4 (df_values X_test))]))))))
    (seq (coef_of lib clf) (\<lambda>c.
     seq (lift (times_coef X_test c)) (\<lambda>res.
     then_do (if_then debug
               (then_do (print [Str (nl # ''Result of coef * Xtest row by row multiplication'')])
                        (print_res_rows (snd res) [0, 1, 2])))
    (let col_list = df_columns X_test;
         first_fact = []; second_fact = []; third_fact = [] in
     then_do (if_then debug
               (print [Str (nl # ''Sorting column importance rankings for each row in X_test...'')]))
    (seq (lift (len_column1 res)) (\<lambda>n.
     seq (lift (rank_rows lib col_list (take n (snd res)) (first_fact, second_fact, third_fact)))
       (\<lambda>(first_fact, second_fact, third_fact).
     then_do (if_then debug
               (then_do (print [Str (nl # ''Top three factors for top five rows:'')])
                        (print [Tbl [(''first'', take 3 first_fact),
                                     (''second'', take 3 second_fact),
                                     (''third'', take 3 third_fact)]])))
             (ret (first_fact, second_fact, third_fact)))))))))"

definition find_top_three_factors ::
  "('a, 'p) sklearn \<Rightarrow> bool \<Rightarrow> dataframe \<Rightarrow> real list \<Rightarrow> dataframe \<Rightarrow> string \<Rightarrow> flag
     \<Rightarrow> ('a, 'p, string list \<times> string list \<times> string list) prog" where
  "find_top_three_factors lib debug X_train y_train X_test model_type use_saved_model =
     seq (factor_model lib debug X_train y_train X_test model_type use_saved_model)
         (rank_factors lib debug X_test)"


section \<open>GenerateAUC\<close>

text \<open>
  \<^verbatim>\<open>str.upper\<close> on the letters \<open>a\<close> to \<open>z\<close>; strings are ASCII texts.
\<close>

definition upper_char :: "char \<Rightarrow> char" where
  "upper_char c = (let n = (of_char c :: nat) in
                   if 97 \<le> n \<and> n \<le> 122 then char_of (n - 32) else c)"

definition upper :: "string \<Rightarrow> string" where
  "upper s = map upper_char s"

text \<open>Elementwise operation on two one-dimensional arrays, with broadcasting.\<close>

definition broadcast :: "(real \<Rightarrow> real \<Rightarrow> real) \<Rightarrow> real list \<Rightarrow> real list \<Rightarrow> error + real list" where
  "broadcast f xs ys =
     (if length xs = length ys then Inr (map2 f xs ys)
      else if length ys = 1 then Inr (map (\<lambda>x. f x (hd ys)) xs)
      else if length xs = 1 then Inr (map (\<lambda>y. f (hd xs) y) ys)
      else Inl ValueError)"

definition np_min :: "real list \<Rightarrow> error + real" where
  "np_min d = (if d = [] then Inl ValueError else Inr (Min (set d)))"

text \<open>\<^verbatim>\<open>np.where(d == v)\<close>: the indices of the entries equal to \<open>v\<close>, ascending.\<close>

definition np_where_eq :: "real list \<Rightarrow> real \<Rightarrow> nat list" where
  "np_where_eq d v = filter (\<lambda>i. d ! i = v) [0..<length d]"

fun sequence_e :: "(error + 'x) list \<Rightarrow> error + 'x list" where
  "sequence_e [] = Inr []"
| "sequence_e (v # vs) = bind_e v (\<lambda>x. bind_e (sequence_e vs) (\<lambda>xs. Inr (x # xs)))"

text \<open>\<^verbatim>\<open>xs[ind]\<close> with an array of indices.\<close>

definition take_at :: "real list \<Rightarrow> nat list \<Rightarrow> error + real list" where
  "take_at xs ind = sequence_e (map (nth_e xs) ind)"

text \<open>
  An array as the argument of a \<^verbatim>\<open>%0.2f\<close> conversion: only an array of one entry
  converts to a number.
\<close>

definition as_scalar :: "real list \<Rightarrow> error + real" where
  "as_scalar xs = (case xs of [x] \<Rightarrow> Inr x | _ \<Rightarrow> Inl TypeError)"

definition format3 :: "real list \<Rightarrow> real list \<Rightarrow> real list \<Rightarrow> error + real list" where
  "format3 a b c =
     bind_e (as_scalar a) (\<lambda>x. bind_e (as_scalar b) (\<lambda>y. bind_e (as_scalar c) (\<lambda>z.
       Inr [x, y, z])))"

text \<open>
  \<^verbatim>\<open>for i in range(len(thresh)): print(fmt % (thresh[i], ys[i], zs[i]))\<close>.
\<close>

fun print_cutoffs ::
  "string \<Rightarrow> real list \<Rightarrow> real list \<Rightarrow> real list \<Rightarrow> nat list \<Rightarrow> ('a, 'p, unit) prog" where
  "print_cutoffs fmt thresh ys zs [] = ret ()"
| "print_cutoffs fmt thresh ys zs (i # rest) =
     seq (lift (nth_e thresh i)) (\<lambda>t.
     seq (lift (nth_e ys i)) (\<lambda>y.
     seq (lift (nth_e zs i)) (\<lambda>z.
     then_do (print [Fmt fmt [t, y, z]]) (print_cutoffs fmt thresh ys zs rest))))"

fun plt_calls :: "string list \<Rightarrow> ('a, 'p, unit) prog" where
  "plt_calls [] = ret ()"
| "plt_calls (c # cs) = then_do (emit (Plt c)) (plt_calls cs)"

text \<open>Lines 241 to 272: the ROC curve.\<close>

definition GenerateAUC_SS ::
  "('a, 'p) sklearn \<Rightarrow> real list \<Rightarrow> real list \<Rightarrow> flag \<Rightarrow> flag
     \<Rightarrow> ('a, 'p, (string \<times> real) list) prog" where
  "GenerateAUC_SS lib predictions labels plotFlg allCutoffsFlg =
     seq (lib_call (roc_curve lib labels predictions)) (\<lambda>(fpr, tpr, thresh).
     seq (lib_call (auc lib fpr tpr)) (\<lambda>area.
     then_do (print [Fmt ''Area under ROC curve (AUC): %0.2f'' [area]])
    (seq (lift (broadcast (+) (map (\<lambda>x. (x - 0)\<^sup>2) fpr) (map (\<lambda>x. (x - 1)\<^sup>2) tpr))) (\<lambda>d.
     seq (lift (np_min d)) (\<lambda>lowest.
     let ind = np_where_eq d lowest in
     seq (lift (take_at tpr ind)) (\<lambda>bestTpr.
     seq (lift (take_at fpr ind)) (\<lambda>bestFpr.
     seq (lift (take_at thresh ind)) (\<lambda>cutoff.
     seq (lift (format3 cutoff bestTpr bestFpr)) (\<lambda>args.
     then_do (print [Fmt ''Ideal cutoff is %0.2f, yielding TPR of %0.2f and FPR of %0.2f'' args])
    (then_do (if_then (allCutoffsFlg = PyTrue)
               (then_do (print [FmtS ''%-7s %-6s %-5s'' [''Thresh'', ''TPR'', ''FPR'']])
                        (print_cutoffs ''%-7.2f %-6.2f %-6.2f'' thresh tpr fpr
                           [0..<length thresh])))
    (then_do (if_then (plotFlg = PyTrue)
               (plt_calls [''figure'', ''plot'', ''plot'', ''xlim'', ''ylim'', ''xlabel'',
                           ''ylabel'', ''title'', ''legend'', ''show'']))
    (seq (lift (nth_e cutoff 0)) (\<lambda>c0.
     seq (lift (nth_e bestTpr 0)) (\<lambda>t0.
     seq (lift (nth_e bestFpr 0)) (\<lambda>f0.
     ret [(''AU_ROC'', area), (''BestCutoff'', c0), (''BestTpr'', t0), (''BestFpr'', f0)]
     )))))))))))))))"

text \<open>
  Lines 276 to 309: the precision-recall curve. With \<^verbatim>\<open>plotFlg is True\<close> the label
  \<^verbatim>\<open>'Precision-Recall curve' % area\<close> has no conversion for its argument, which is a
  TypeError after \<^verbatim>\<open>plt.figure()\<close>.
\<close>

definition GenerateAUC_PR ::
  "('a, 'p) sklearn \<Rightarrow> real list \<Rightarrow> real list \<Rightarrow> flag \<Rightarrow> flag
     \<Rightarrow> ('a, 'p, (string \<times> real) list) prog" where
  "GenerateAUC_PR lib predictions labels plotFlg allCutoffsFlg =
     seq (lib_call (precision_recall_curve lib labels predictions)) (\<lambda>(precision, recall, thresh).
     seq (lib_call (average_precision_score lib labels predictions)) (\<lambda>area.
     then_do (print [Fmt ''Area under PR curve (AU_PR): %0.2f'' [area]])
    (seq (lift (broadcast (+) (map (\<lambda>x. (x - 1)\<^sup>2) precision) (map (\<lambda>x. (x - 1)\<^sup>2) recall)))
       (\<lambda>d.
     seq (lift (np_min d)) (\<lambda>lowest.
     let ind = np_where_eq d lowest in
     seq (lift (take_at precision ind)) (\<lambda>bestPre.
     seq (lift (take_at recall ind)) (\<lambda>bestRec.
     seq (lift (take_at thresh ind)) (\<lambda>cutoff.
     seq (lift (format3 cutoff bestPre bestRec)) (\<lambda>args.
     then_do (print [Fmt ''Ideal cutoff is %0.2f, yielding TPR of %0.2f and FPR of %0.2f'' args])
    (then_do (if_then (allCutoffsFlg = PyTrue)
               (then_do (print [FmtS ''%-7s %-10s %-10s'' [''Thresh'', ''Precision'', ''Recall'']])
                        (print_cutoffs ''%5.2f %6.2f %10.2f'' thresh precision recall
                           [0..<length thresh])))
    (then_do (if_then (plotFlg = PyTrue)
               (then_do (plt_calls [''figure'']) (throw TypeError)))
    (seq (lift (nth_e cutoff 0)) (\<lambda>c0.
     seq (lift (nth_e bestPre 0)) (\<lambda>p0.
     seq (lift (nth_e bestRec 0)) (\<lambda>r0.
     ret [(''AU_PR'', area), (''BestCutoff'', c0), (''BestPrecision'', p0), (''BestRecall'', r0)]
     )))))))))))))))"

definition GenerateAUC ::
  "('a, 'p) sklearn \<Rightarrow> real list \<Rightarrow> real list \<Rightarrow> string \<Rightarrow> flag \<Rightarrow> flag
     \<Rightarrow> ('a, 'p, (string \<times> real) list) prog" where
  "GenerateAUC lib predictions labels aucType plotFlg allCutoffsFlg =
     (if length predictions \<noteq> length labels then
        throw (Exception ''Data vectors are not equal length!'')
      else
        (let aucType = upper aucType in
         seq (if aucType \<noteq> ''SS'' \<and> aucType \<noteq> ''PR'' then
                then_do (print [Str ''Drawing ROC curve with Sensitivity/Specificity''])
                        (ret ''SS'')
              else ret aucType)
           (\<lambda>aucType.
              if aucType = ''SS'' then GenerateAUC_SS lib predictions labels plotFlg allCutoffsFlg
              else GenerateAUC_PR lib predictions labels plotFlg allCutoffsFlg)))"

section \<open>Observations on the events of a call\<close>

fun is_fit :: "('a, 'p) event \<Rightarrow> bool" where
  "is_fit (Fit c X y) = True"
| "is_fit _ = False"

text \<open>The file that an event reads or writes.\<close>

fun file_name :: "('a, 'p) event \<Rightarrow> string option" where
  "file_name (Load f) = Some f"
| "file_name (Save f c) = Some f"
| "file_name _ = None"

fun is_save :: "('a, 'p) event \<Rightarrow> bool" where
  "is_save (Save f c) = True"
| "is_save _ = False"

text \<open>Every event of the program satisfies \<open>Q\<close>, from any files.\<close>

definition emits :: "(('a, 'p) event \<Rightarrow> bool) \<Rightarrow> ('a, 'p, 'r) prog \<Rightarrow> bool" where
  "emits Q m = (\<forall>fs. list_all Q (out_of (m fs)))"

definition keeps_files :: "('a, 'p, 'r) prog \<Rightarrow> bool" where
  "keeps_files m = (\<forall>fs. files_of (m fs) = fs)"

text \<open>The program never raises an explicit \<^verbatim>\<open>Exception\<close>.\<close>

definition no_explicit :: "('a, 'p, 'r) prog \<Rightarrow> bool" where
  "no_explicit m = (\<forall>fs msg. res_of (m fs) \<noteq> Inl (Exception msg))"

text \<open>A value that is not an explicit \<^verbatim>\<open>Exception\<close>.\<close>

definition plain :: "error + 'x \<Rightarrow> bool" where
  "plain v = (\<forall>msg. v \<noteq> Inl (Exception msg))"

section \<open>Notions of the ranking claims\<close>

text \<open>
  \<open>ix\<close> is an index sort of \<open>xs\<close>: a permutation of the positions of \<open>xs\<close> that lists
  its entries in ascending order. numpy's default sort is not stable, so the order of
  equal entries is left open.
\<close>

definition is_argsort :: "real list \<Rightarrow> nat list \<Rightarrow> bool" where
  "is_argsort xs ix = (sort ix = [0..<length xs] \<and> sorted (map (\<lambda>i. xs ! i) ix))"

text \<open>
  Positions \<open>a\<close>, \<open>b\<close>, \<open>c\<close> hold the largest, second largest and third largest entry
  of \<open>p\<close>.
\<close>

definition top_three :: "real list \<Rightarrow> nat \<Rightarrow> nat \<Rightarrow> nat \<Rightarrow> bool" where
  "top_three p a b c =
     (a < length p \<and> b < length p \<and> c < length p \<and> a \<noteq> b \<and> a \<noteq> c \<and> b \<noteq> c
      \<and> p ! b \<le> p ! a \<and> p ! c \<le> p ! b
      \<and> list_all (\<lambda>j. j = a \<or> j = b \<or> j = c \<or> p ! j \<le> p ! c) [0..<length p])"

text \<open>
  The coefficient vector of a model: a one-dimensional \<open>coef_\<close>, or the single row of
  a two-dimensional one.
\<close>

definition coef_vector :: "ndarray \<Rightarrow> real list option" where
  "coef_vector c = (case c of A1 v \<Rightarrow> Some v | A2 [v] \<Rightarrow> Some v | A2 _ \<Rightarrow> None)"

section \<open>A concrete library for evaluating the module\<close>

text \<open>
  An index sort by insertion, the regression metrics as scikit-learn documents them,
  and fixed answers for the other calls: enough to run each function of the module on
  concrete data.
\<close>

definition argsort_insertion :: "real list \<Rightarrow> nat list" where
  "argsort_insertion xs = map snd (sort_key fst (zip xs [0..<length xs]))"

definition mse :: "real list \<Rightarrow> real list \<Rightarrow> real option" where
  "mse t s = (if length t = length s \<and> t \<noteq> [] then
                Some (sum_list (map2 (\<lambda>a b. (a - b)\<^sup>2) t s) / real (length t))
              else None)"

definition mae :: "real list \<Rightarrow> real list \<Rightarrow> real option" where
  "mae t s = (if length t = length s \<and> t \<noteq> [] then
                Some (sum_list (map2 (\<lambda>a b. \<bar>a - b\<bar>) t s) / real (length t))
              else None)"

definition example_lib :: "(nat, unit) sklearn" where
  "example_lib = \<lparr>
     fit = (\<lambda>c X y. Some (Obj 1)),
     predict_proba = (\<lambda>c X. Some (map (\<lambda>r. [1/2, 1/2]) (df_values X))),
     predict = (\<lambda>c X. Some (map sum_list (df_values X))),
     best_params = (\<lambda>c. None),
     feature_importances = (\<lambda>c. None),
     best_estimator = (\<lambda>c. None),
     coef = (\<lambda>c. Some (A1 [1, -2, 3])),
     roc_auc_score = (\<lambda>t s. Some 1),
     precision_recall_curve = (\<lambda>t s. Some ([1/2, 1, 1], [1, 1, 0], [3/10, 4/5])),
     roc_curve = (\<lambda>t s. Some ([0, 0, 1], [0, 1, 1], [9/5, 4/5, 3/10])),
     auc = (\<lambda>xs ys. Some 1),
     average_precision_score = (\<lambda>t s. Some 1),
     mean_squared_error = mse,
     mean_absolute_error = mae,
     argsort = argsort_insertion,
     write_feature_importances = (\<lambda>imp cols. Some [[Str ''Variable importance:''], [Arr imp]])
   \<rparr>"

definition example_X :: dataframe where
  "example_X = \<lparr>df_values = [[1, 2, 3], [4, 0, -1]], df_columns = [''age'', ''bmi'', ''bp'']\<rparr>"

definition example_y :: "real list" where
  "example_y = [6, 3]"


definition tied_lib :: "(nat, unit) sklearn" where
  "tied_lib = example_lib \<lparr>
     roc_curve := (\<lambda>t s. Some ([0, 0, 1/2, 1/2, 1], [0, 1/2, 1/2, 1, 1],
                               [19/10, 9/10, 4/5, 3/10, 1/5])),
     auc := (\<lambda>xs ys. Some (3/4)) \<rparr>"

section \<open>The parts of a sequence of steps\<close>

lemma seq_apply:
  "seq m k fs = (case m fs of
       (out, fs1, Inl e) \<Rightarrow> (out, fs1, Inl e)
     | (out, fs1, Inr x) \<Rightarrow> (out @ out_of (k x fs1), files_of (k x fs1), res_of (k x fs1)))"
  by (simp add: seq_def out_of_def files_of_def res_of_def split: prod.splits sum.splits)

lemma res_of_seq:
  "res_of (seq m k fs) =
     (case res_of (m fs) of Inl e \<Rightarrow> Inl e | Inr x \<Rightarrow> res_of (k x (files_of (m fs))))"
  by (simp add: seq_def out_of_def files_of_def res_of_def split: prod.splits sum.splits)

lemma out_of_seq:
  "out_of (seq m k fs) =
     (case res_of (m fs) of Inl e \<Rightarrow> out_of (m fs)
      | Inr x \<Rightarrow> out_of (m fs) @ out_of (k x (files_of (m fs))))"
  by (simp add: seq_def out_of_def files_of_def res_of_def split: prod.splits sum.splits)

lemma files_of_seq:
  "files_of (seq m k fs) =
     (case res_of (m fs) of Inl e \<Rightarrow> files_of (m fs)
      | Inr x \<Rightarrow> files_of (k x (files_of (m fs))))"
  by (simp add: seq_def out_of_def files_of_def res_of_def split: prod.splits sum.splits)

lemma parts_ret [simp]:
  "res_of (ret x fs) = Inr x" "out_of (ret x fs) = []" "files_of (ret x fs) = fs"
  by (simp_all add: ret_def out_of_def files_of_def res_of_def)

lemma parts_throw [simp]:
  "res_of (throw e fs) = Inl e" "out_of (throw e fs) = []" "files_of (throw e fs) = fs"
  by (simp_all add: throw_def out_of_def files_of_def res_of_def)

lemma parts_emit [simp]:
  "res_of (emit ev fs) = Inr ()" "out_of (emit ev fs) = [ev]" "files_of (emit ev fs) = fs"
  by (simp_all add: emit_def out_of_def files_of_def res_of_def)

lemma parts_lift [simp]:
  "res_of (lift v fs) = v" "out_of (lift v fs) = []" "files_of (lift v fs) = fs"
  by (simp_all add: lift_def out_of_def files_of_def res_of_def)

lemma parts_print [simp]:
  "res_of (print xs fs) = Inr ()" "out_of (print xs fs) = [Print xs]" "files_of (print xs fs) = fs"
  by (simp_all add: print_def)

lemma parts_then_do:
  "res_of (then_do m k fs) =
     (case res_of (m fs) of Inl e \<Rightarrow> Inl e | Inr x \<Rightarrow> res_of (k (files_of (m fs))))"
  "out_of (then_do m k fs) =
     (case res_of (m fs) of Inl e \<Rightarrow> out_of (m fs)
      | Inr x \<Rightarrow> out_of (m fs) @ out_of (k (files_of (m fs))))"
  "files_of (then_do m k fs) =
     (case res_of (m fs) of Inl e \<Rightarrow> files_of (m fs)
      | Inr x \<Rightarrow> files_of (k (files_of (m fs))))"
  by (simp_all add: then_do_def res_of_seq out_of_seq files_of_seq)

lemma prog_eqI:
  "out_of a = out_of b \<Longrightarrow> files_of a = files_of b \<Longrightarrow> res_of a = res_of b \<Longrightarrow> a = b"
  by (cases a, cases b) (simp add: out_of_def files_of_def res_of_def)

lemma parts_tuple [simp]:
  "out_of (a, b, c) = a" "files_of (a, b, c) = b" "res_of (a, b, c) = c"
  by (simp_all add: out_of_def files_of_def res_of_def)

lemma parts_lib_call [simp]:
  "res_of (lib_call v fs) = (case v of None \<Rightarrow> Inl LibraryError | Some x \<Rightarrow> Inr x)"
  "out_of (lib_call v fs) = []" "files_of (lib_call v fs) = fs"
  by (simp_all add: lib_call_def split: option.splits)

lemma parts_attr [simp]:
  "res_of (attr v fs) = (case v of None \<Rightarrow> Inl AttributeError | Some x \<Rightarrow> Inr x)"
  "out_of (attr v fs) = []" "files_of (attr v fs) = fs"
  by (simp_all add: attr_def split: option.splits)

lemma parts_local_var [simp]:
  "res_of (local_var v fs) = (case v of None \<Rightarrow> Inl UnboundLocalError | Some x \<Rightarrow> Inr x)"
  "out_of (local_var v fs) = []" "files_of (local_var v fs) = fs"
  by (simp_all add: local_var_def split: option.splits)

lemma parts_metric_call [simp]:
  "res_of (metric_call f a b fs) =
     (case a of None \<Rightarrow> Inl LibraryError
      | Some t \<Rightarrow> (case b of None \<Rightarrow> Inl LibraryError
          | Some s \<Rightarrow> (case f t s of None \<Rightarrow> Inl LibraryError | Some x \<Rightarrow> Inr x)))"
  "out_of (metric_call f a b fs) = []" "files_of (metric_call f a b fs) = fs"
  by (simp_all add: metric_call_def split: option.splits)

lemma parts_if_then [simp]:
  "res_of (if_then c m fs) = (if c then res_of (m fs) else Inr ())"
  "out_of (if_then c m fs) = (if c then out_of (m fs) else [])"
  "files_of (if_then c m fs) = (if c then files_of (m fs) else fs)"
  by (simp_all add: if_then_def)

lemma parts_fit_call [simp]:
  "res_of (fit_call lib c X y fs) =
     (case fit lib c X y of None \<Rightarrow> Inl LibraryError | Some x \<Rightarrow> Inr x)"
  "out_of (fit_call lib c X y fs) = [Fit c X y]" "files_of (fit_call lib c X y fs) = fs"
  by (simp_all add: fit_call_def parts_then_do)

lemma parts_save [simp]:
  "res_of (save_object_as_pickle f c fs) = Inr ()"
  "out_of (save_object_as_pickle f c fs) = [Save f c]"
  "files_of (save_object_as_pickle f c fs) = fs(f \<mapsto> c)"
  by (simp_all add: save_object_as_pickle_def)

lemma parts_load [simp]:
  "res_of (load_pickle_file f fs) =
     (case fs f of None \<Rightarrow> Inl FileNotFoundError | Some obj \<Rightarrow> Inr obj)"
  "out_of (load_pickle_file f fs) = [Load f]"
  "files_of (load_pickle_file f fs) = fs"
  by (simp_all add: load_pickle_file_def)

lemmas parts_seq = res_of_seq out_of_seq files_of_seq parts_then_do

subsection \<open>Properties kept by sequencing\<close>

lemma parts_print_lines [simp]:
  "res_of (print_lines ls fs) = Inr ()" "out_of (print_lines ls fs) = map Print ls"
  "files_of (print_lines ls fs) = fs"
  by (induction ls) (simp_all add: parts_then_do)

lemma emits_seq: "emits Q m \<Longrightarrow> (\<And>x. emits Q (k x)) \<Longrightarrow> emits Q (seq m k)"
  by (auto simp: emits_def out_of_seq split: sum.splits)

lemma emits_then_do: "emits Q m \<Longrightarrow> emits Q k \<Longrightarrow> emits Q (then_do m k)"
  by (simp add: then_do_def emits_seq)

lemma emits_if: "(c \<Longrightarrow> emits Q a) \<Longrightarrow> (\<not> c \<Longrightarrow> emits Q b) \<Longrightarrow> emits Q (if c then a else b)"
  by simp

lemma emits_case_prod: "(\<And>a b. emits Q (f a b)) \<Longrightarrow> emits Q (case p of (a, b) \<Rightarrow> f a b)"
  by (cases p) simp

lemma emits_Let: "emits Q (f v) \<Longrightarrow> emits Q (Let v f)"
  by simp

lemma emits_silent:
  "emits Q (ret x)" "emits Q (throw e)" "emits Q (lift v)" "emits Q (lib_call o1)"
  "emits Q (attr o2)" "emits Q (local_var o3)" "emits Q (metric_call f a b)"
  by (simp_all add: emits_def)

lemma emits_emit: "Q ev \<Longrightarrow> emits Q (emit ev)"
  by (simp add: emits_def)

lemma emits_print: "Q (Print xs) \<Longrightarrow> emits Q (print xs)"
  by (simp add: emits_def)

lemma emits_if_then: "(c \<Longrightarrow> emits Q m) \<Longrightarrow> emits Q (if_then c m)"
  by (simp add: emits_def)

lemma emits_print_lines: "(\<And>xs. Q (Print xs)) \<Longrightarrow> emits Q (print_lines ls)"
  by (simp add: emits_def list_all_iff)

lemmas emits_intros = emits_seq emits_then_do emits_if emits_case_prod emits_Let emits_silent
  emits_emit emits_print emits_if_then emits_print_lines

lemma keeps_seq: "keeps_files m \<Longrightarrow> (\<And>x. keeps_files (k x)) \<Longrightarrow> keeps_files (seq m k)"
  by (auto simp: keeps_files_def files_of_seq split: sum.splits)

lemma keeps_then_do: "keeps_files m \<Longrightarrow> keeps_files k \<Longrightarrow> keeps_files (then_do m k)"
  by (simp add: then_do_def keeps_seq)

lemma keeps_if:
  "(c \<Longrightarrow> keeps_files a) \<Longrightarrow> (\<not> c \<Longrightarrow> keeps_files b) \<Longrightarrow> keeps_files (if c then a else b)"
  by simp

lemma keeps_case_prod:
  "(\<And>a b. keeps_files (f a b)) \<Longrightarrow> keeps_files (case p of (a, b) \<Rightarrow> f a b)"
  by (cases p) simp

lemma keeps_Let: "keeps_files (f v) \<Longrightarrow> keeps_files (Let v f)"
  by simp

lemma keeps_basic:
  "keeps_files (ret x)" "keeps_files (throw e)" "keeps_files (lift v)" "keeps_files (lib_call o1)"
  "keeps_files (attr o2)" "keeps_files (local_var o3)" "keeps_files (metric_call f a b)"
  "keeps_files (emit ev)" "keeps_files (print xs)" "keeps_files (print_lines ls)"
  "keeps_files (fit_call lib c X y)" "keeps_files (load_pickle_file fn)"
  by (simp_all add: keeps_files_def)

lemma keeps_if_then: "(c \<Longrightarrow> keeps_files m) \<Longrightarrow> keeps_files (if_then c m)"
  by (simp add: keeps_files_def)

lemmas keeps_intros = keeps_seq keeps_then_do keeps_if keeps_case_prod keeps_Let keeps_basic
  keeps_if_then

lemma nox_seq: "no_explicit m \<Longrightarrow> (\<And>x. no_explicit (k x)) \<Longrightarrow> no_explicit (seq m k)"
  by (auto simp: no_explicit_def res_of_seq split: sum.splits)

lemma nox_then_do: "no_explicit m \<Longrightarrow> no_explicit k \<Longrightarrow> no_explicit (then_do m k)"
  by (simp add: then_do_def nox_seq)

lemma nox_if:
  "(c \<Longrightarrow> no_explicit a) \<Longrightarrow> (\<not> c \<Longrightarrow> no_explicit b) \<Longrightarrow> no_explicit (if c then a else b)"
  by simp

lemma nox_case_prod:
  "(\<And>a b. no_explicit (f a b)) \<Longrightarrow> no_explicit (case p of (a, b) \<Rightarrow> f a b)"
  by (cases p) simp

lemma nox_Let: "no_explicit (f v) \<Longrightarrow> no_explicit (Let v f)"
  by simp

lemma nox_basic:
  "no_explicit (ret x)" "no_explicit (lib_call o1)"
  "no_explicit (attr o2)" "no_explicit (local_var o3)" "no_explicit (metric_call f a b)"
  "no_explicit (emit ev)" "no_explicit (print xs)" "no_explicit (print_lines ls)"
  "no_explicit (fit_call lib c X y)" "no_explicit (load_pickle_file fn)"
  "no_explicit (save_object_as_pickle fn c)"
  by (simp_all add: no_explicit_def split: option.splits)

lemma nox_throw: "(\<And>msg. e \<noteq> Exception msg) \<Longrightarrow> no_explicit (throw e)"
  by (simp add: no_explicit_def)

lemma nox_lift: "(\<And>msg. v \<noteq> Inl (Exception msg)) \<Longrightarrow> no_explicit (lift v)"
  by (simp add: no_explicit_def)

lemma nox_if_then: "(c \<Longrightarrow> no_explicit m) \<Longrightarrow> no_explicit (if_then c m)"
  by (simp add: no_explicit_def)

lemmas nox_intros = nox_seq nox_then_do nox_if nox_case_prod nox_Let nox_basic nox_if_then

lemma emits_print_regression_metrics:
  "(\<And>xs. Q (Print xs)) \<Longrightarrow> emits Q (print_regression_metrics lib y_pred y_pred_class y_test)"
  unfolding print_regression_metrics_def by (intro emits_intros) simp_all

lemma emits_print_classification_metrics:
  "(\<And>xs. Q (Print xs)) \<Longrightarrow> emits Q (print_classification_metrics pr_auc roc_auc)"
  unfolding print_classification_metrics_def by (intro emits_intros) simp_all

lemma emits_yesdev_return:
  "(\<And>xs. Q (Print xs)) \<Longrightarrow> emits Q (clfreport_yesdev_return lib tune col_list clf y_pred roc_auc)"
  unfolding clfreport_yesdev_return_def by (intro emits_intros) simp_all

subsection \<open>Running a sequence of steps on concrete values\<close>

lemma seq_ret_left: "seq (ret x) k = k x"
  by (rule ext) (simp add: seq_def ret_def split: prod.splits)

lemma run_seq:
  "seq (ret x) k fs = k x fs"
  "seq (throw e) k fs = ([], fs, Inl e)"
  "seq (lift (Inr x)) k fs = k x fs"
  "seq (lift (Inl e)) k fs = ([], fs, Inl e)"
  "seq (lib_call (Some x)) k fs = k x fs"
  "seq (lib_call None) k fs = ([], fs, Inl LibraryError)"
  "seq (attr (Some x)) k fs = k x fs"
  "seq (attr None) k fs = ([], fs, Inl AttributeError)"
  "seq (local_var (Some x)) k fs = k x fs"
  "seq (local_var None) k fs = ([], fs, Inl UnboundLocalError)"
  by (simp_all add: seq_def ret_def throw_def lift_def lib_call_def attr_def local_var_def
        split: prod.splits)

lemma run_the_object:
  "seq (the_object (Some c)) k fs = k c fs"
  "seq (the_object None) k fs = ([], fs, Inl AttributeError)"
  by (simp_all add: seq_def ret_def throw_def the_object_def split: prod.splits)

lemma run_seq_emit:
  "seq (emit ev) k fs = (ev # out_of (k () fs), files_of (k () fs), res_of (k () fs))"
  by (simp add: seq_def emit_def out_of_def files_of_def res_of_def split: prod.splits)

lemma run_then_do:
  "then_do (ret u) k fs = k fs"
  "then_do (throw e) k fs = ([], fs, Inl e)"
  "then_do (emit ev) k fs = (case k fs of (out, fs', r) \<Rightarrow> (ev # out, fs', r))"
  "then_do (print xs) k fs = (case k fs of (out, fs', r) \<Rightarrow> (Print xs # out, fs', r))"
  "then_do (if_then False m) k fs = k fs"
  "then_do (if_then True m) k fs = then_do m k fs"
  "then_do (then_do a b) k fs = then_do a (then_do b k) fs"
  "then_do (save_object_as_pickle f c) k fs =
     (case k (fs(f \<mapsto> c)) of (out, fs', r) \<Rightarrow> (Save f c # out, fs', r))"
  by (simp_all add: then_do_def seq_def ret_def throw_def emit_def print_def if_then_def
        save_object_as_pickle_def split: prod.splits sum.splits)

lemma run_fit_call:
  "seq (fit_call lib c X y) k fs =
     (case seq (lib_call (fit lib c X y)) k fs of (out, fs', r) \<Rightarrow> (Fit c X y # out, fs', r))"
  by (simp add: fit_call_def then_do_def seq_def emit_def lib_call_def ret_def throw_def
        split: prod.splits sum.splits option.splits)

lemma run_assoc:
  "seq (seq m f) k fs = seq m (\<lambda>x. seq (f x) k) fs"
  "seq (then_do a b) k fs = then_do a (seq b k) fs"
  by (simp_all add: then_do_def seq_def split: prod.splits sum.splits)

lemma run_assoc_then:
  "then_do (seq m f) c fs = seq m (\<lambda>x. then_do (f x) c) fs"
  by (simp add: then_do_def seq_def split: prod.splits sum.splits)

lemma run_load:
  "seq (load_pickle_file f) k fs =
     (case fs f of None \<Rightarrow> ([Load f], fs, Inl FileNotFoundError)
      | Some c \<Rightarrow> (case k c fs of (out, fs', r) \<Rightarrow> (Load f # out, fs', r)))"
  by (simp add: seq_def load_pickle_file_def split: prod.splits sum.splits option.splits)

lemma run_last:
  "ret x fs = ([], fs, Inr x)" "throw e fs = ([], fs, Inl e)"
  "print xs fs = ([Print xs], fs, Inr ())"
  "if_then False m fs = ([], fs, Inr ())" "if_then True m fs = m fs"
  by (simp_all add: ret_def throw_def print_def emit_def if_then_def)

lemmas run = run_seq run_the_object run_assoc run_assoc_then run_then_do run_fit_call run_load run_last

subsection \<open>Events and files of clfreport\<close>

lemma emits_fit_call: "Q (Fit c X y) \<Longrightarrow> emits Q (fit_call lib c X y)"
  by (simp add: emits_def)

lemma emits_yesdev_score:
  "(\<And>xs. Q (Print xs)) \<Longrightarrow> (\<And>c X y. Q (Fit c X y)) \<Longrightarrow>
   emits Q (clfreport_yesdev_score lib modeltype clf X_train y_train X_test y_test y_pred
     y_pred_class)"
  unfolding clfreport_yesdev_score_def
  by (intro emits_intros emits_fit_call emits_print_regression_metrics
        emits_print_classification_metrics) simp_all

lemma keeps_print_regression_metrics:
  "keeps_files (print_regression_metrics lib y_pred y_pred_class y_test)"
  unfolding print_regression_metrics_def by (intro keeps_intros)

lemma keeps_print_classification_metrics:
  "keeps_files (print_classification_metrics pr_auc roc_auc)"
  unfolding print_classification_metrics_def by (intro keeps_intros)

lemma keeps_yesdev_score:
  "keeps_files (clfreport_yesdev_score lib modeltype clf X_train y_train X_test y_test y_pred
     y_pred_class)"
  unfolding clfreport_yesdev_score_def
  by (intro keeps_intros keeps_print_regression_metrics keeps_print_classification_metrics)

lemma keeps_yesdev_return:
  "keeps_files (clfreport_yesdev_return lib tune col_list clf y_pred roc_auc)"
  unfolding clfreport_yesdev_return_def by (intro keeps_intros)

lemma emits_yesdev:
  "(\<And>xs. Q (Print xs)) \<Longrightarrow> (\<And>c X y. Q (Fit c X y)) \<Longrightarrow>
   emits Q (clfreport_yesdev lib modeltype debug algo X_train y_train X_test y_test param
     cores tune col_list clf y_pred y_pred_class)"
  unfolding clfreport_yesdev_def
  by (intro emits_intros emits_yesdev_score emits_yesdev_return) simp_all

lemma keeps_yesdev:
  "keeps_files (clfreport_yesdev lib modeltype debug algo X_train y_train X_test y_test param
     cores tune col_list clf y_pred y_pred_class)"
  unfolding clfreport_yesdev_def
  by (intro keeps_intros keeps_yesdev_score keeps_yesdev_return)

lemma notdev_saved:
  "out_of (clfreport_notdev lib modeltype debug X_train y_train X_test PyTrue clf y_pred fs)
     = [Load ''probability.pkl'']"
  "files_of (clfreport_notdev lib modeltype debug X_train y_train X_test PyTrue clf y_pred fs)
     = fs"
  by (simp_all add: clfreport_notdev_def parts_seq split: option.splits sum.splits)

lemma notdev_fitted:
  assumes "use_saved_model \<noteq> PyTrue"
  shows "out_of (clfreport_notdev lib modeltype debug X_train y_train X_test use_saved_model
       clf y_pred fs) =
     (if debug then [Print [Str (nl # ''clf object right before fitting main model:'')]] else [])
     @ Fit clf X_train y_train
     # (case fit lib clf X_train y_train of None \<Rightarrow> []
        | Some c \<Rightarrow> [Save ''probability.pkl'' c])"
   and "files_of (clfreport_notdev lib modeltype debug X_train y_train X_test use_saved_model
       clf y_pred fs) =
     (case fit lib clf X_train y_train of None \<Rightarrow> fs
      | Some c \<Rightarrow> fs(''probability.pkl'' \<mapsto> c))"
  using assms
  by (simp_all add: clfreport_notdev_def parts_seq split: option.splits sum.splits)

lemma clfreport_file_events:
  "list_all (\<lambda>ev. file_name ev = None \<or> file_name ev = Some ''probability.pkl'')
     (out_of (clfreport lib modeltype debug devcheck algo X_train y_train X_test y_test param
        cores tune use_saved_model col_list fs))"
proof -
  consider "devcheck = ''yesdev''" | "devcheck = ''notdev''" "use_saved_model = PyTrue"
    | "devcheck = ''notdev''" "use_saved_model \<noteq> PyTrue"
    | "devcheck \<noteq> ''yesdev''" "devcheck \<noteq> ''notdev''"
    by blast
  then show ?thesis
  proof cases
    case 1
    have "emits (\<lambda>ev. file_name ev = None \<or> file_name ev = Some ''probability.pkl'')
       (clfreport_yesdev lib modeltype debug algo X_train y_train X_test y_test param
         cores tune col_list algo None None)"
      by (rule emits_yesdev) simp_all
    with 1 show ?thesis by (simp add: clfreport_def emits_def)
  next
    case 2
    then show ?thesis by (simp add: clfreport_def notdev_saved)
  next
    case 3
    then show ?thesis by (simp add: clfreport_def notdev_fitted split: option.splits)
  next
    case 4
    then show ?thesis by (simp add: clfreport_def)
  qed
qed

lemma clfreport_other_files:
  assumes "f \<noteq> ''probability.pkl''"
  shows "files_of (clfreport lib modeltype debug devcheck algo X_train y_train X_test y_test param
        cores tune use_saved_model col_list fs) f = fs f"
proof -
  consider "devcheck = ''yesdev''" | "devcheck = ''notdev''" "use_saved_model = PyTrue"
    | "devcheck = ''notdev''" "use_saved_model \<noteq> PyTrue"
    | "devcheck \<noteq> ''yesdev''" "devcheck \<noteq> ''notdev''"
    by blast
  then show ?thesis
  proof cases
    case 1
    then show ?thesis using keeps_yesdev [of lib modeltype debug algo X_train y_train X_test
        y_test param cores tune col_list algo None None]
      by (simp add: clfreport_def keeps_files_def)
  next
    case 2
    then show ?thesis by (simp add: clfreport_def notdev_saved)
  next
    case 3
    then show ?thesis using assms by (simp add: clfreport_def notdev_fitted split: option.splits)
  next
    case 4
    then show ?thesis by (simp add: clfreport_def)
  qed
qed

lemma filter_fit_silent: "list_all (\<lambda>e. \<not> is_fit e) xs \<Longrightarrow> filter is_fit xs = []"
  by (induction xs) simp_all

lemma fits_seq_right_silent:
  assumes "\<And>x. emits (\<lambda>e. \<not> is_fit e) (k x)"
  shows "filter is_fit (out_of (seq m k fs)) = filter is_fit (out_of (m fs))"
  using assms by (auto simp: out_of_seq emits_def filter_fit_silent split: sum.splits)

lemma fits_then_left_silent:
  assumes "emits (\<lambda>e. \<not> is_fit e) m"
  shows "filter is_fit (out_of (then_do m k fs)) =
     (case res_of (m fs) of Inl e \<Rightarrow> [] | Inr x \<Rightarrow> filter is_fit (out_of (k (files_of (m fs)))))"
  using assms by (auto simp: parts_then_do emits_def filter_fit_silent split: sum.splits)

lemma fits_fit_then:
  assumes "\<And>x. emits (\<lambda>e. \<not> is_fit e) (k x)"
  shows "filter is_fit (out_of (seq (fit_call lib c X y) k fs)) = [Fit c X y]"
  using assms by (simp add: fits_seq_right_silent)

lemma yesdev_score_fits:
  "filter is_fit (out_of (clfreport_yesdev_score lib modeltype clf X_train y_train X_test y_test
      y_pred y_pred_class fs)) =
   (if modeltype = ''classification'' \<or> modeltype = ''regression'' then [Fit clf X_train y_train]
    else [])"
proof -
  have "filter is_fit (out_of (clfreport_yesdev_score lib ''classification'' clf X_train y_train
      X_test y_test y_pred y_pred_class fs)) = [Fit clf X_train y_train]"
    unfolding clfreport_yesdev_score_def
    apply simp
    apply (rule fits_fit_then)
    apply (intro emits_intros emits_print_classification_metrics)
    apply simp_all
    done
  moreover have "filter is_fit (out_of (clfreport_yesdev_score lib ''regression'' clf X_train
      y_train X_test y_test y_pred y_pred_class fs)) = [Fit clf X_train y_train]"
    unfolding clfreport_yesdev_score_def
    apply simp
    apply (rule fits_fit_then)
    apply (intro emits_intros emits_print_regression_metrics)
    apply simp_all
    done
  moreover have "modeltype \<noteq> ''classification'' \<Longrightarrow> modeltype \<noteq> ''regression'' \<Longrightarrow>
    filter is_fit (out_of (clfreport_yesdev_score lib modeltype clf X_train
      y_train X_test y_test y_pred y_pred_class fs)) = []"
    by (simp add: clfreport_yesdev_score_def)
  ultimately show ?thesis by auto
qed

lemma yesdev_fits:
  "filter is_fit (out_of (clfreport_yesdev lib modeltype debug algo X_train y_train X_test y_test
      param cores tune col_list clf y_pred y_pred_class fs)) =
   (if modeltype = ''classification'' \<or> modeltype = ''regression'' then
      [Fit (if tune then GridSearchCV algo param 5 ''roc_auc'' cores else clf) X_train y_train]
    else [])"
proof -
  define c where "c = (if tune then GridSearchCV algo param 5 ''roc_auc'' cores else clf)"
  define S where "S = clfreport_yesdev_score lib modeltype c X_train y_train X_test y_test
      y_pred y_pred_class"
  define K where "K = (\<lambda>x. case x of (clf, y_pred, roc_auc) \<Rightarrow>
         clfreport_yesdev_return lib tune col_list clf y_pred roc_auc)"
  have silent: "\<And>x. emits (\<lambda>e. \<not> is_fit e) (K x)"
    unfolding K_def by (intro emits_intros emits_yesdev_return) simp_all
  have "filter is_fit (out_of (clfreport_yesdev lib modeltype debug algo X_train y_train X_test
      y_test param cores tune col_list clf y_pred y_pred_class fs))
      = filter is_fit (out_of (seq S K fs))"
    unfolding clfreport_yesdev_def Let_def c_def [symmetric] S_def [symmetric] K_def [symmetric]
    by (simp add: parts_then_do)
  also have "\<dots> = filter is_fit (out_of (S fs))"
    by (rule fits_seq_right_silent [OF silent])
  finally show ?thesis
    by (simp add: S_def c_def yesdev_score_fits)
qed

lemma clfreport_fits:
  "filter is_fit (out_of (clfreport lib modeltype debug devcheck algo X_train y_train X_test y_test
       param cores tune use_saved_model col_list fs)) =
   (if devcheck = ''yesdev'' \<and> (modeltype = ''classification'' \<or> modeltype = ''regression'') then
      [Fit (if tune then GridSearchCV algo param 5 ''roc_auc'' cores else algo) X_train y_train]
    else if devcheck = ''notdev'' \<and> use_saved_model \<noteq> PyTrue then [Fit algo X_train y_train]
    else [])"
proof -
  consider "devcheck = ''yesdev''" | "devcheck = ''notdev''" "use_saved_model = PyTrue"
    | "devcheck = ''notdev''" "use_saved_model \<noteq> PyTrue"
    | "devcheck \<noteq> ''yesdev''" "devcheck \<noteq> ''notdev''"
    by blast
  then show ?thesis
  proof cases
    case 1
    then show ?thesis by (simp add: clfreport_def yesdev_fits)
  next
    case 2
    then show ?thesis by (simp add: clfreport_def notdev_saved)
  next
    case 3
    then show ?thesis by (simp add: clfreport_def notdev_fitted split: option.splits)
  next
    case 4
    then show ?thesis by (simp add: clfreport_def)
  qed
qed

lemma GridSearchCV_not_self: "GridSearchCV c p n s j \<noteq> c"
  by (induction c arbitrary: p n s j) auto

subsection \<open>Where an explicit exception can come from\<close>

lemma plain_Inr [simp]: "plain (Inr x)"
  by (simp add: plain_def)

lemma plain_Inl [simp]: "plain (Inl e) = (\<forall>msg. e \<noteq> Exception msg)"
  by (simp add: plain_def)

lemma plain_bind_e: "plain v \<Longrightarrow> (\<And>x. plain (k x)) \<Longrightarrow> plain (bind_e v k)"
  by (cases v) (simp_all add: bind_e_def)

lemma plain_nth_e [simp]: "plain (nth_e xs i)"
  by (simp add: nth_e_def)

lemma plain_sequence_e: "(\<And>v. v \<in> set vs \<Longrightarrow> plain v) \<Longrightarrow> plain (sequence_e vs)"
  by (induction vs) (auto intro!: plain_bind_e)

lemma plain_take_at [simp]: "plain (take_at xs ind)"
  unfolding take_at_def by (rule plain_sequence_e) auto

lemma plain_as_scalar [simp]: "plain (as_scalar xs)"
  by (simp add: as_scalar_def split: list.splits)

lemma plain_format3 [simp]: "plain (format3 a b c)"
  unfolding format3_def by (intro plain_bind_e) simp_all

lemma plain_broadcast [simp]: "plain (broadcast f xs ys)"
  by (simp add: broadcast_def)

lemma plain_np_min [simp]: "plain (np_min d)"
  by (simp add: np_min_def)

lemma plain_column [simp]: "plain (column j m)"
  by (simp add: column_def)

lemma plain_math_sqrt [simp]: "plain (math_sqrt x)"
  by (simp add: math_sqrt_def)

lemma plain_times_2d [simp]: "plain (times_2d m X k C)"
  by (simp add: times_2d_def split: option.splits)

lemma plain_times_coef [simp]: "plain (times_coef X c)"
  by (simp add: times_coef_def split: ndarray.splits)

lemma plain_len_column1 [simp]: "plain (len_column1 res)"
  by (simp add: len_column1_def)

lemma plain_rank_rows [simp]: "plain (rank_rows lib col_list rows acc)"
proof (induction rows arbitrary: acc)
  case Nil
  then show ?case by simp
next
  case (Cons row rows)
  obtain f s t where acc: "acc = (f, s, t)" by (cases acc)
  show ?case
    unfolding acc rank_rows.simps Let_def
    by (intro plain_bind_e plain_nth_e Cons.IH)
qed

lemma nox_lift_plain: "plain v \<Longrightarrow> no_explicit (lift v)"
  by (simp add: no_explicit_def plain_def)

lemma nox_throw_other:
  "no_explicit (throw LibraryError)" "no_explicit (throw AttributeError)"
  "no_explicit (throw IndexError)" "no_explicit (throw TypeError)"
  "no_explicit (throw ValueError)" "no_explicit (throw UnboundLocalError)"
  "no_explicit (throw FileNotFoundError)"
  by (simp_all add: no_explicit_def)

lemma nox_print_cutoffs: "no_explicit (print_cutoffs fmt thresh ys zs is)"
  by (induction "is") (auto intro!: nox_intros nox_lift_plain)

lemma nox_plt_calls: "no_explicit (plt_calls cs)"
  by (induction cs) (auto intro!: nox_intros)

lemma nox_print_res_rows: "no_explicit (print_res_rows res is)"
  by (induction "is") (auto intro!: nox_intros nox_lift_plain)

lemma nox_the_object: "no_explicit (the_object clf)"
  by (cases clf) (simp_all add: the_object_def nox_throw_other nox_intros)

lemma nox_print_clf: "no_explicit (print_clf clf)"
  by (cases clf) (simp_all add: print_clf_def nox_intros)

lemma nox_coef_of: "no_explicit (coef_of lib clf)"
  unfolding coef_of_def by (intro nox_intros nox_the_object)

lemmas nox_more = nox_lift_plain nox_throw_other nox_print_cutoffs nox_plt_calls
  nox_print_res_rows nox_the_object nox_print_clf nox_coef_of

lemma nox_print_regression_metrics:
  "no_explicit (print_regression_metrics lib y_pred y_pred_class y_test)"
  unfolding print_regression_metrics_def by (intro nox_intros nox_more) simp_all

lemma nox_print_classification_metrics:
  "no_explicit (print_classification_metrics pr_auc roc_auc)"
  unfolding print_classification_metrics_def by (intro nox_intros nox_more)

lemma nox_yesdev_score:
  "no_explicit (clfreport_yesdev_score lib modeltype clf X_train y_train X_test y_test y_pred
     y_pred_class)"
  unfolding clfreport_yesdev_score_def
  by (intro nox_intros nox_more nox_print_regression_metrics nox_print_classification_metrics)
     simp_all

lemma nox_yesdev_return:
  "no_explicit (clfreport_yesdev_return lib tune col_list clf y_pred roc_auc)"
  unfolding clfreport_yesdev_return_def by (intro nox_intros nox_more)

lemma nox_yesdev:
  "no_explicit (clfreport_yesdev lib modeltype debug algo X_train y_train X_test y_test param
     cores tune col_list clf y_pred y_pred_class)"
  unfolding clfreport_yesdev_def
  by (intro nox_intros nox_yesdev_score nox_yesdev_return)

lemma nox_notdev:
  "no_explicit (clfreport_notdev lib modeltype debug X_train y_train X_test use_saved_model clf
     y_pred)"
  unfolding clfreport_notdev_def
  by (intro nox_intros nox_more) simp_all

lemma nox_clfreport:
  "no_explicit (clfreport lib modeltype debug devcheck algo X_train y_train X_test y_test param
     cores tune use_saved_model col_list)"
  unfolding clfreport_def
  by (intro nox_intros nox_yesdev nox_notdev)

lemma nox_factor_model:
  "no_explicit (factor_model lib debug X_train y_train X_test model_type use_saved_model)"
  unfolding factor_model_def
  by (intro nox_intros nox_more)

lemma nox_rank_factors: "no_explicit (rank_factors lib debug X_test clf)"
  unfolding rank_factors_def
  by (intro nox_intros nox_more) simp_all

lemma nox_find_top_three_factors:
  "no_explicit (find_top_three_factors lib debug X_train y_train X_test model_type
     use_saved_model)"
  unfolding find_top_three_factors_def
  by (intro nox_intros nox_factor_model nox_rank_factors)

lemma nox_GenerateAUC_SS:
  "no_explicit (GenerateAUC_SS lib predictions labels plotFlg allCutoffsFlg)"
  unfolding GenerateAUC_SS_def
  by (intro nox_intros nox_more) simp_all

lemma nox_GenerateAUC_PR:
  "no_explicit (GenerateAUC_PR lib predictions labels plotFlg allCutoffsFlg)"
  unfolding GenerateAUC_PR_def
  by (intro nox_intros nox_more) simp_all

lemma GenerateAUC_unequal:
  "length predictions \<noteq> length labels \<Longrightarrow>
   GenerateAUC lib predictions labels aucType plotFlg allCutoffsFlg fs =
     ([], fs, Inl (Exception ''Data vectors are not equal length!''))"
  by (simp add: GenerateAUC_def throw_def)

lemma GenerateAUC_equal_nox:
  assumes "length predictions = length labels"
  shows "res_of (GenerateAUC lib predictions labels aucType plotFlg allCutoffsFlg fs)
           \<noteq> Inl (Exception msg)"
proof -
  have "no_explicit (seq (if upper aucType \<noteq> ''SS'' \<and> upper aucType \<noteq> ''PR'' then
                then_do (print [Str ''Drawing ROC curve with Sensitivity/Specificity''])
                        (ret ''SS'')
              else ret (upper aucType))
           (\<lambda>aucType.
              if aucType = ''SS'' then GenerateAUC_SS lib predictions labels plotFlg allCutoffsFlg
              else GenerateAUC_PR lib predictions labels plotFlg allCutoffsFlg))"
    by (intro nox_intros nox_GenerateAUC_SS nox_GenerateAUC_PR)
  then show ?thesis
    using assms by (simp add: GenerateAUC_def Let_def no_explicit_def)
qed

subsection \<open>The concrete library\<close>

lemma example_lib_simps:
  "fit example_lib c X y = Some (Obj 1)"
  "predict_proba example_lib c X = Some (map (\<lambda>r. [1/2, 1/2]) (df_values X))"
  "predict example_lib c X = Some (map sum_list (df_values X))"
  "best_params example_lib c = None"
  "feature_importances example_lib c = None"
  "best_estimator example_lib c = None"
  "coef example_lib c = Some (A1 [1, -2, 3])"
  "roc_auc_score example_lib t s = Some 1"
  "precision_recall_curve example_lib t s = Some ([1/2, 1, 1], [1, 1, 0], [3/10, 4/5])"
  "roc_curve example_lib t s = Some ([0, 0, 1], [0, 1, 1], [9/5, 4/5, 3/10])"
  "auc example_lib xs ys = Some 1"
  "average_precision_score example_lib t s = Some 1"
  "mean_squared_error example_lib = mse"
  "mean_absolute_error example_lib = mae"
  "argsort example_lib = argsort_insertion"
  "write_feature_importances example_lib imp cols
     = Some [[Str ''Variable importance:''], [Arr imp]]"
  by (simp_all add: example_lib_def)

lemma example_SS:
  "GenerateAUC_SS example_lib [9/10, 4/5, 3/10] [1, 1, 0] PyFalse PyFalse fs =
     ([Print [Fmt ''Area under ROC curve (AUC): %0.2f'' [1]],
       Print [Fmt ''Ideal cutoff is %0.2f, yielding TPR of %0.2f and FPR of %0.2f'' [4/5, 1, 0]]],
      fs,
      Inr [(''AU_ROC'', 1), (''BestCutoff'', 4/5), (''BestTpr'', 1), (''BestFpr'', 0)])"
  by (simp add: GenerateAUC_SS_def example_lib_simps run nth_e_def broadcast_def np_min_def
        np_where_eq_def take_at_def bind_e_def format3_def as_scalar_def Let_def)

lemma example_X_simps:
  "df_values example_X = [[1, 2, 3], [4, 0, -1]]" "df_columns example_X = [''age'', ''bmi'', ''bp'']"
  by (simp_all add: example_X_def)

lemma example_times_coef: "times_coef example_X (A1 [1, -2, 3]) = Inr (3, [[1, -4, 9], [4, 0, -3]])"
  by (simp add: times_coef_def times_2d_def bdim_def example_X_def)

lemma example_argsort_rows: "argsort_insertion [-1, 4, -9] = [2, 0, 1]" "argsort_insertion [-4, 0, 3] = [0, 1, 2]"
  by (simp_all add: argsort_insertion_def)

lemma example_rank_rows: "rank_rows example_lib [''age'', ''bmi'', ''bp''] [[1, -4, 9], [4, 0, -3]] ([], [], [])
   = Inr ([''bp'', ''age''], [''age'', ''bmi''], [''bmi'', ''bp''])"
  by (simp add: example_lib_simps example_argsort_rows nth_e_def bind_e_def)

lemma example_factors:
  "find_top_three_factors example_lib False example_X example_y example_X ''classification''
     PyFalse Map.empty =
   ([Fit LogisticRegression example_X example_y], Map.empty,
    Inr ([''bp'', ''age''], [''age'', ''bmi''], [''bmi'', ''bp'']))"
  by (simp add: find_top_three_factors_def factor_model_def rank_factors_def coef_of_def
        example_lib_simps run example_times_coef example_argsort_rows len_column1_def Let_def nth_e_def bind_e_def example_X_simps)

lemma example_regression_metrics:
  "mse [6, 3] [4, 5] = Some 4" "mae [6, 3] [6, 3] = Some 0" "mse [6, 3] [6, 3] = Some 0"
  by (simp_all add: mse_def mae_def)

lemma example_factors_regression:
  "find_top_three_factors example_lib False example_X example_y example_X ''regression''
     PyFalse Map.empty =
   ([Fit LinearRegression example_X example_y, Save ''factorlogit.pkl'' (Obj 1)],
    [''factorlogit.pkl'' \<mapsto> Obj 1],
    Inr ([''bp'', ''age''], [''age'', ''bmi''], [''bmi'', ''bp'']))"
  by (simp add: find_top_three_factors_def factor_model_def rank_factors_def coef_of_def
        example_lib_simps run example_times_coef example_argsort_rows len_column1_def Let_def nth_e_def bind_e_def example_X_simps)

lemma example_factors_saved:
  "find_top_three_factors example_lib False example_X example_y example_X ''classification''
     PyTrue Map.empty = ([Load ''factorlogit.pkl''], Map.empty, Inl FileNotFoundError)"
  by (simp add: find_top_three_factors_def factor_model_def run)

lemma example_factor_model:
  "res_of (factor_model example_lib False example_X example_y example_X ''classification''
     PyFalse Map.empty) = Inr (Some (Obj 1))"
  by (simp add: factor_model_def example_lib_simps run Let_def)

lemma example_argsorts:
  "\<forall>row\<in>set (df_values example_X).
      is_argsort (map uminus (map2 (*) row [1, -2, 3]))
        (argsort example_lib (map uminus (map2 (*) row [1, -2, 3])))"
  by (simp add: example_X_simps example_lib_simps is_argsort_def argsort_insertion_def)

subsection \<open>The branches of GenerateAUC\<close>

lemma upper_literals:
  "upper ''SS'' = ''SS''" "upper ''PR'' = ''PR''" "upper ''ss'' = ''SS''" "upper ''pr'' = ''PR''"
  by code_simp+

lemma GenerateAUC_by_upper:
  "upper a = upper b \<Longrightarrow>
   GenerateAUC lib predictions labels a plotFlg allCutoffsFlg fs
     = GenerateAUC lib predictions labels b plotFlg allCutoffsFlg fs"
  by (simp add: GenerateAUC_def)

lemma GenerateAUC_SS_branch:
  "length predictions = length labels \<Longrightarrow>
   GenerateAUC lib predictions labels ''SS'' plotFlg allCutoffsFlg fs
     = GenerateAUC_SS lib predictions labels plotFlg allCutoffsFlg fs"
  by (simp add: GenerateAUC_def upper_literals seq_ret_left)

lemma GenerateAUC_default_branch:
  "length predictions = length labels \<Longrightarrow> upper aucType \<noteq> ''SS'' \<Longrightarrow> upper aucType \<noteq> ''PR'' \<Longrightarrow>
   GenerateAUC lib predictions labels aucType plotFlg allCutoffsFlg fs
     = then_do (print [Str ''Drawing ROC curve with Sensitivity/Specificity''])
         (GenerateAUC_SS lib predictions labels plotFlg allCutoffsFlg) fs"
  by (simp add: GenerateAUC_def Let_def then_do_def seq_def ret_def split: prod.splits sum.splits)

subsection \<open>What a returning call has computed\<close>

lemma seq_InrE:
  assumes "res_of (seq m k fs) = Inr r"
  obtains x where "res_of (m fs) = Inr x" and "res_of (k x (files_of (m fs))) = Inr r"
  using assms by (auto simp: res_of_seq split: sum.splits)

lemma then_do_InrE:
  assumes "res_of (then_do m k fs) = Inr r"
  obtains "res_of (m fs) = Inr ()" and "res_of (k (files_of (m fs))) = Inr r"
  using assms by (auto simp: parts_then_do split: sum.splits)





lemma broadcast_same_length:
  "length xs = length ys \<Longrightarrow> broadcast f xs ys = Inr (map2 f xs ys)"
  by (simp add: broadcast_def)



subsection \<open>When the ROC call returns\<close>

lemma res_of_prepend:
  "res_of (case p of (out, rest) \<Rightarrow> (ev # out, rest)) = res_of p"
  "files_of (case p of (out, rest) \<Rightarrow> (ev # out, rest)) = files_of p"
  by (cases p; simp add: res_of_def files_of_def)+










lemma take_at_all:
  "\<forall>i\<in>set ind. i < length xs \<Longrightarrow> take_at xs ind = Inr (map (\<lambda>i. xs ! i) ind)"
  unfolding take_at_def
  by (induction ind) (simp_all add: nth_e_def bind_e_def)

lemma GenerateAUC_SS_tie_raises:
  assumes roc: "roc_curve lib labels predictions = Some (fpr, tpr, thresh)"
    and area: "auc lib fpr tpr = Some area"
    and len: "length fpr = length thresh" "length tpr = length thresh"
    and tie: "np_where_eq (map2 (+) (map (\<lambda>x. (x - 0)\<^sup>2) fpr) (map (\<lambda>x. (x - 1)\<^sup>2) tpr))
                 (Min (set (map2 (+) (map (\<lambda>x. (x - 0)\<^sup>2) fpr) (map (\<lambda>x. (x - 1)\<^sup>2) tpr))))
               = k1 # k2 # ks"
  shows "res_of (GenerateAUC_SS lib predictions labels plotFlg allCutoffsFlg fs) = Inl TypeError"
proof -
  define d where "d = map2 (+) (map (\<lambda>x. (x - 0)\<^sup>2) fpr) (map (\<lambda>x. (x - 1)\<^sup>2) tpr)"
  have bc: "broadcast (+) (map (\<lambda>x. (x - 0)\<^sup>2) fpr) (map (\<lambda>x. (x - 1)\<^sup>2) tpr) = Inr d"
    using len by (simp add: broadcast_same_length d_def)
  have d_len: "length d = length thresh"
    using len by (simp add: d_def)
  from tie have ind: "np_where_eq d (Min (set d)) = k1 # k2 # ks"
    by (simp add: d_def)
  have "k1 \<in> set (np_where_eq d (Min (set d)))"
    by (simp add: ind)
  then have "d \<noteq> []"
    by (auto simp: np_where_eq_def)
  then have low: "np_min d = Inr (Min (set d))"
    by (simp add: np_min_def)
  have range: "\<forall>i\<in>set (k1 # k2 # ks). i < length d"
    using ind [symmetric] by (auto simp: np_where_eq_def)
  have t1: "take_at tpr (k1 # k2 # ks) = Inr (map (\<lambda>i. tpr ! i) (k1 # k2 # ks))"
    and t2: "take_at fpr (k1 # k2 # ks) = Inr (map (\<lambda>i. fpr ! i) (k1 # k2 # ks))"
    and t3: "take_at thresh (k1 # k2 # ks) = Inr (map (\<lambda>i. thresh ! i) (k1 # k2 # ks))"
    using range d_len len by (intro take_at_all; simp)+
  show ?thesis
    unfolding GenerateAUC_SS_def Let_def
    by (simp only: roc area bc low ind run_seq prod.case t1 t2 t3 run_then_do res_of_prepend)
       (simp add: format3_def as_scalar_def bind_e_def run res_of_prepend)
qed

subsection \<open>Ranking the columns of a row\<close>

lemma is_argsort_facts:
  assumes "is_argsort xs ix"
  shows "length ix = length xs" "distinct ix" "set ix = {0..<length xs}"
    "sorted (map (\<lambda>i. xs ! i) ix)"
proof -
  from assms have s: "sort ix = [0..<length xs]" and o: "sorted (map (\<lambda>i. xs ! i) ix)"
    by (simp_all add: is_argsort_def)
  show "length ix = length xs"
    using arg_cong [OF s, of length] by simp
  show "distinct ix"
    using arg_cong [OF s, of distinct] by simp
  show "set ix = {0..<length xs}"
    using arg_cong [OF s, of set] by simp
  show "sorted (map (\<lambda>i. xs ! i) ix)" by (rule o)
qed

lemma argsort_top_three:
  assumes a: "is_argsort (map uminus p) ix" and len: "3 \<le> length p"
  shows "top_three p (ix ! 0) (ix ! 1) (ix ! 2)"
proof -
  note f = is_argsort_facts [OF a]
  from f(1) len have l: "3 \<le> length ix" "length ix = length p" by simp_all
  have in_range: "ix ! k < length p" if "k < length ix" for k
  proof -
    have "ix ! k \<in> set ix" using that by simp
    then show ?thesis using f(3) by simp
  qed
  have ne: "ix ! i \<noteq> ix ! j" if "i < length ix" "j < length ix" "i \<noteq> j" for i j
    using that f(2) by (simp add: nth_eq_iff_index_eq)
  have mono: "p ! (ix ! j) \<le> p ! (ix ! i)" if "i \<le> j" "j < length ix" for i j
  proof -
    from that have "j < length (map (\<lambda>i. map uminus p ! i) ix)" by simp
    from sorted_nth_mono [OF f(4) that(1) this]
    have "map uminus p ! (ix ! i) \<le> map uminus p ! (ix ! j)"
      using that by simp
    then show ?thesis
      using that in_range [of i] in_range [of j] by simp
  qed
  have rest: "j = ix ! 0 \<or> j = ix ! 1 \<or> j = ix ! 2 \<or> p ! j \<le> p ! (ix ! 2)"
    if "j < length p" for j
  proof -
    from that f(3) have "j \<in> set ix" by simp
    then obtain k where k: "k < length ix" "ix ! k = j"
      by (auto simp: in_set_conv_nth)
    show ?thesis
    proof (cases "k < 3")
      case True
      then have "k = 0 \<or> k = 1 \<or> k = 2" by arith
      with k show ?thesis by auto
    next
      case False
      then have "2 \<le> k" by simp
      from mono [OF this k(1)] k show ?thesis by simp
    qed
  qed
  have "list_all (\<lambda>j. j = ix ! 0 \<or> j = ix ! 1 \<or> j = ix ! 2 \<or> p ! j \<le> p ! (ix ! 2))
     [0..<length p]"
    using rest by (simp add: list_all_iff)
  moreover from l have k0: "0 < length ix" and k1: "1 < length ix" and k2: "2 < length ix"
    by arith+
  moreover note in_range [OF k0] in_range [OF k1] in_range [OF k2]
    ne [OF k0 k1] ne [OF k0 k2] ne [OF k1 k2] mono [OF _ k1, of 0] mono [OF _ k2, of 1]
  ultimately show ?thesis
    by (simp add: top_three_def)
qed

lemma rank_rows_Inr:
  assumes "rank_rows lib cols rows (f, s, t) = Inr (f', s', t')"
  shows "\<exists>fa sa ta. f' = f @ fa \<and> s' = s @ sa \<and> t' = t @ ta
          \<and> length fa = length rows \<and> length sa = length rows \<and> length ta = length rows
          \<and> (\<forall>i<length rows.
                nth_e cols (argsort lib (map uminus (rows ! i)) ! 0) = Inr (fa ! i)
              \<and> nth_e cols (argsort lib (map uminus (rows ! i)) ! 1) = Inr (sa ! i)
              \<and> nth_e cols (argsort lib (map uminus (rows ! i)) ! 2) = Inr (ta ! i))"
  using assms
proof (induction rows arbitrary: f s t)
  case Nil
  then show ?case by simp
next
  case (Cons row rows)
  let ?ix = "argsort lib (map uminus row)"
  from Cons.prems obtain i0 c0 i1 c1 i2 c2 where
    i: "nth_e ?ix 0 = Inr i0" "nth_e ?ix 1 = Inr i1" "nth_e ?ix 2 = Inr i2"
    and c: "nth_e cols i0 = Inr c0" "nth_e cols i1 = Inr c1" "nth_e cols i2 = Inr c2"
    and rest: "rank_rows lib cols rows (f @ [c0], s @ [c1], t @ [c2]) = Inr (f', s', t')"
    by (auto simp: bind_e_def Let_def split: sum.splits)
  from i have ix: "i0 = ?ix ! 0" "i1 = ?ix ! 1" "i2 = ?ix ! 2"
    by (auto simp: nth_e_def split: if_splits)
  from Cons.IH [OF rest] obtain fa sa ta where
    tl: "f' = (f @ [c0]) @ fa" "s' = (s @ [c1]) @ sa" "t' = (t @ [c2]) @ ta"
      "length fa = length rows" "length sa = length rows" "length ta = length rows"
      "\<forall>i<length rows.
          nth_e cols (argsort lib (map uminus (rows ! i)) ! 0) = Inr (fa ! i)
        \<and> nth_e cols (argsort lib (map uminus (rows ! i)) ! 1) = Inr (sa ! i)
        \<and> nth_e cols (argsort lib (map uminus (rows ! i)) ! 2) = Inr (ta ! i)"
    by blast
  have heads: "f' = f @ (c0 # fa)" "s' = s @ (c1 # sa)" "t' = t @ (c2 # ta)"
    by (simp_all add: tl)
  have lens: "length (c0 # fa) = length (row # rows)" "length (c1 # sa) = length (row # rows)"
    "length (c2 # ta) = length (row # rows)"
    by (simp_all add: tl)
  have each: "\<forall>i<length (row # rows).
      nth_e cols (argsort lib (map uminus ((row # rows) ! i)) ! 0) = Inr ((c0 # fa) ! i)
    \<and> nth_e cols (argsort lib (map uminus ((row # rows) ! i)) ! 1) = Inr ((c1 # sa) ! i)
    \<and> nth_e cols (argsort lib (map uminus ((row # rows) ! i)) ! 2) = Inr ((c2 # ta) ! i)"
  proof (intro allI impI)
    fix i assume "i < length (row # rows)"
    then show "nth_e cols (argsort lib (map uminus ((row # rows) ! i)) ! 0) = Inr ((c0 # fa) ! i)
      \<and> nth_e cols (argsort lib (map uminus ((row # rows) ! i)) ! 1) = Inr ((c1 # sa) ! i)
      \<and> nth_e cols (argsort lib (map uminus ((row # rows) ! i)) ! 2) = Inr ((c2 # ta) ! i)"
      using tl(7) c ix by (cases i) simp_all
  qed
  from heads lens each show ?case by blast
qed


lemma times_2d_row:
  assumes rows: "\<forall>row\<in>set X. length row = m" and w: "length w = m" and m: "m \<noteq> 1"
  shows "times_2d m X m [w] = Inr (m, map (\<lambda>row. map2 (*) row w) X)"
proof -
  define F where "F = (\<lambda>i. map (\<lambda>j. X ! (if length X = 1 then 0 else i) ! (if m = 1 then 0 else j)
                        * [w] ! (if length [w] = 1 then 0 else i) ! (if m = 1 then 0 else j))
               [0..<m])"
  have b1: "bdim (length X) (length [w]) = Some (length X)"
    by (simp add: bdim_def)
  have b2: "bdim m m = Some m"
    by (simp add: bdim_def)
  have row: "F i = map2 (*) (X ! i) w" if "i < length X" for i
  proof -
    from that rows have len: "length (X ! i) = m" by simp
    show ?thesis
      unfolding F_def using that m len w by (intro nth_equalityI) auto
  qed
  have "map F [0..<length X] = map (\<lambda>row. map2 (*) row w) X"
  proof (rule nth_equalityI)
    show "length (map F [0..<length X]) = length (map (\<lambda>row. map2 (*) row w) X)"
      by simp
  next
    fix i assume "i < length (map F [0..<length X])"
    then have i: "i < length X" by simp
    then have "map F [0..<length X] ! i = F i" by simp
    also have "\<dots> = map2 (*) (X ! i) w" by (rule row [OF i])
    also have "\<dots> = map (\<lambda>row. map2 (*) row w) X ! i" using i by simp
    finally show "map F [0..<length X] ! i = map (\<lambda>row. map2 (*) row w) X ! i" .
  qed
  then show ?thesis
    unfolding times_2d_def b1 b2 F_def by simp
qed

lemma times_coef_vector:
  assumes "coef_vector carr = Some w" and "length w = length (df_columns X)"
    and "\<forall>row\<in>set (df_values X). length row = length (df_columns X)"
    and "3 \<le> length (df_columns X)"
  shows "times_coef X carr
           = Inr (length (df_columns X), map (\<lambda>row. map2 (*) row w) (df_values X))"
proof -
  from assms(4) have m: "length (df_columns X) \<noteq> 1" by simp
  from assms(1) consider "carr = A1 w" | "carr = A2 [w]"
    by (auto simp: coef_vector_def split: ndarray.splits list.splits)
  then show ?thesis
  proof cases
    case 1
    then show ?thesis
      using times_2d_row [OF assms(3) assms(2) m] by (simp add: times_coef_def assms(2))
  next
    case 2
    then show ?thesis
      using times_2d_row [OF assms(3) assms(2) m] by (simp add: times_coef_def ncols_def assms(2))
  qed
qed

lemma rank_factors_Inr:
  assumes "res_of (rank_factors lib debug X (Some clf) fs) = Inr (f, s, t)"
    and "coef lib clf = Some carr"
  shows "\<exists>res n. times_coef X carr = Inr res \<and> len_column1 res = Inr n
           \<and> rank_rows lib (df_columns X) (take n (snd res)) ([], [], []) = Inr (f, s, t)"
  using assms(1) unfolding rank_factors_def Let_def
  apply (elim seq_InrE then_do_InrE)
  apply (simp add: coef_of_def res_of_seq the_object_def assms(2) parts_then_do
      split: prod.splits sum.splits)
  done

section \<open>clfreport: the modes of devcheck\<close>

text \<open>
  C9. For every call to clfreport whose devcheck argument is neither 'yesdev' nor
  'notdev', the function performs no model fitting, no console output and no file read
  or write, and returns None: the call emits no event, leaves the files as they are and
  returns \<^verbatim>\<open>y_pred\<close>, still \<^verbatim>\<open>None\<close>.
\<close>

theorem clfreport_other_devcheck:
  assumes "devcheck \<noteq> ''yesdev''" and "devcheck \<noteq> ''notdev''"
  shows "clfreport lib modeltype debug devcheck algo X_train y_train X_test y_test param cores
           tune use_saved_model col_list fs = ([], fs, Inr (Pred None))"
  using assms by (simp add: clfreport_def ret_def)

theorem clfreport_other_devcheck_witness:
  "''prod'' \<noteq> ''yesdev'' \<and> ''prod'' \<noteq> ''notdev'' \<and>
   clfreport example_lib ''regression'' True ''prod'' (Obj 0) example_X example_y example_X
     (Some example_y) () 4 True PyFalse None Map.empty = ([], Map.empty, Inr (Pred None))"
  using clfreport_other_devcheck [of "''prod''" example_lib "''regression''" True "Obj 0"
      example_X example_y example_X "Some example_y" "()" 4 True PyFalse None Map.empty]
  by simp

section \<open>clfreport: regression in development mode\<close>

lemma print_regression_metrics_None:
  "print_regression_metrics lib y_pred None y_test fs =
     ([Print [Str ''##########################################################''],
       Print [Str ''Model accuracy:'']], fs, Inl LibraryError)"
  by (rule prog_eqI) (simp_all add: print_regression_metrics_def parts_seq split: option.splits)

lemma yesdev_return_unbound:
  "feature_importances lib clf = None \<Longrightarrow> best_estimator lib clf = None \<Longrightarrow>
   res_of (clfreport_yesdev_return lib tune col_list clf y_pred None fs) = Inl UnboundLocalError"
  by (simp add: clfreport_yesdev_return_def parts_seq split: option.splits)

lemma regression_yesdev_raises:
  "res_of (clfreport lib ''regression'' debug ''yesdev'' algo X_train y_train X_test y_test param
     cores tune use_saved_model col_list fs) = Inl LibraryError"
  by (simp add: clfreport_def clfreport_yesdev_def clfreport_yesdev_score_def parts_seq
        print_regression_metrics_None Let_def split: option.splits)

lemma regression_yesdev_events:
  assumes "fit lib (if tune then GridSearchCV algo param 5 ''roc_auc'' cores else algo)
             X_train y_train = Some c"
    and "predict lib c X_test = Some yp"
  shows "out_of (clfreport lib ''regression'' debug ''yesdev'' algo X_train y_train X_test y_test
           param cores tune use_saved_model col_list fs) =
         (if debug then
            [Print [Str (nl # ''clf object right before fitting main model:'')],
             Print [Est (if tune then GridSearchCV algo param 5 ''roc_auc'' cores else algo)]]
          else []) @
         [Print [Str [nl], Est algo],
          Fit (if tune then GridSearchCV algo param 5 ''roc_auc'' cores else algo) X_train y_train]
         @ out_of (print_regression_metrics lib (Some yp) None y_test fs)"
  using assms
  by (simp add: clfreport_def clfreport_yesdev_def clfreport_yesdev_score_def parts_seq
        print_regression_metrics_None Let_def)

text \<open>
  C8. Every call to clfreport with modeltype='regression' and devcheck='yesdev' raises
  an exception and never returns normally. Where fitting and prediction succeed, the
  call ends inside the metrics printer, which was given \<^verbatim>\<open>y_pred_class\<close> still bound
  to \<^verbatim>\<open>None\<close> and raises at the mean squared error, after its first two lines. The
  plain return path (no \<^verbatim>\<open>feature_importances_\<close>, no \<^verbatim>\<open>best_estimator_\<close>) reads
  \<^verbatim>\<open>roc_auc\<close>, which raises while it is unbound.
\<close>

theorem clfreport_regression_yesdev_raises:
  assumes "modeltype = ''regression''" and "devcheck = ''yesdev''"
  shows "res_of (clfreport lib modeltype debug devcheck algo X_train y_train X_test y_test param
           cores tune use_saved_model col_list fs) = Inl LibraryError
       \<and> (\<forall>c yp. fit lib (if tune then GridSearchCV algo param 5 ''roc_auc'' cores else algo)
                    X_train y_train = Some c \<and> predict lib c X_test = Some yp \<longrightarrow>
            out_of (clfreport lib modeltype debug devcheck algo X_train y_train X_test y_test
              param cores tune use_saved_model col_list fs) =
            (if debug then
               [Print [Str (nl # ''clf object right before fitting main model:'')],
                Print [Est (if tune then GridSearchCV algo param 5 ''roc_auc'' cores else algo)]]
             else []) @
            [Print [Str [nl], Est algo],
             Fit (if tune then GridSearchCV algo param 5 ''roc_auc'' cores else algo)
               X_train y_train]
            @ out_of (print_regression_metrics lib (Some yp) None y_test fs))
       \<and> print_regression_metrics lib y_pred None y_test fs =
           ([Print [Str ''##########################################################''],
             Print [Str ''Model accuracy:'']], fs, Inl LibraryError)
       \<and> (feature_importances lib clf = None \<and> best_estimator lib clf = None \<longrightarrow>
            res_of (clfreport_yesdev_return lib tune col_list clf y_pred None fs)
              = Inl UnboundLocalError)"
proof (intro conjI allI impI)
  show "res_of (clfreport lib modeltype debug devcheck algo X_train y_train X_test y_test param
          cores tune use_saved_model col_list fs) = Inl LibraryError"
    using assms by (simp add: regression_yesdev_raises)
next
  fix c yp
  assume "fit lib (if tune then GridSearchCV algo param 5 ''roc_auc'' cores else algo)
            X_train y_train = Some c \<and> predict lib c X_test = Some yp"
  then show "out_of (clfreport lib modeltype debug devcheck algo X_train y_train X_test y_test
          param cores tune use_saved_model col_list fs) =
        (if debug then
           [Print [Str (nl # ''clf object right before fitting main model:'')],
            Print [Est (if tune then GridSearchCV algo param 5 ''roc_auc'' cores else algo)]]
         else []) @
        [Print [Str [nl], Est algo],
         Fit (if tune then GridSearchCV algo param 5 ''roc_auc'' cores else algo)
           X_train y_train]
        @ out_of (print_regression_metrics lib (Some yp) None y_test fs)"
    using assms regression_yesdev_events [of lib tune algo param cores X_train y_train c X_test yp]
    by simp
next
  show "print_regression_metrics lib y_pred None y_test fs =
          ([Print [Str ''##########################################################''],
            Print [Str ''Model accuracy:'']], fs, Inl LibraryError)"
    by (rule print_regression_metrics_None)
next
  assume "feature_importances lib clf = None \<and> best_estimator lib clf = None"
  then show "res_of (clfreport_yesdev_return lib tune col_list clf y_pred None fs)
               = Inl UnboundLocalError"
    by (simp add: yesdev_return_unbound)
qed

theorem clfreport_regression_yesdev_raises_witness:
  "res_of (clfreport example_lib ''regression'' False ''yesdev'' (Obj 0) example_X example_y
     example_X (Some example_y) () 4 False PyFalse None Map.empty) = Inl LibraryError
   \<and> out_of (clfreport example_lib ''regression'' False ''yesdev'' (Obj 0) example_X example_y
     example_X (Some example_y) () 4 False PyFalse None Map.empty) =
     [Print [Str [nl], Est (Obj 0)], Fit (Obj 0) example_X example_y,
      Print [Str ''##########################################################''],
      Print [Str ''Model accuracy:'']]"
  using clfreport_regression_yesdev_raises [where modeltype = "''regression''"
      and devcheck = "''yesdev''" and lib = example_lib and debug = False and algo = "Obj 0"
      and X_train = example_X and y_train = example_y and X_test = example_X
      and y_test = "Some example_y" and param = "()" and cores = 4 and tune = False
      and use_saved_model = PyFalse and col_list = None and fs = Map.empty
      and y_pred = "Some (map sum_list (df_values example_X))" and clf = "Obj 0"]
  by (simp add: example_lib_simps)

section \<open>clfreport: pickle files\<close>

text \<open>
  C6. In clfreport with devcheck='notdev': if use\_saved\_model is True the model is
  loaded from the fixed file name 'probability.pkl' and no pickle file is written;
  otherwise the supplied model is fitted on (X\_train, y\_train) and, once fitted, saved
  under exactly 'probability.pkl'. In every mode, no file name other than
  'probability.pkl' is read or written by clfreport.
\<close>

theorem clfreport_pickle_files:
  "(devcheck = ''notdev'' \<and> use_saved_model = PyTrue \<longrightarrow>
      out_of (clfreport lib modeltype debug devcheck algo X_train y_train X_test y_test param
        cores tune use_saved_model col_list fs) = [Load ''probability.pkl'']
    \<and> files_of (clfreport lib modeltype debug devcheck algo X_train y_train X_test y_test param
        cores tune use_saved_model col_list fs) = fs)
 \<and> (devcheck = ''notdev'' \<and> use_saved_model \<noteq> PyTrue \<longrightarrow>
      out_of (clfreport lib modeltype debug devcheck algo X_train y_train X_test y_test param
        cores tune use_saved_model col_list fs) =
        (if debug then [Print [Str (nl # ''clf object right before fitting main model:'')]]
         else [])
        @ Fit algo X_train y_train
        # (case fit lib algo X_train y_train of None \<Rightarrow> []
           | Some c \<Rightarrow> [Save ''probability.pkl'' c])
    \<and> files_of (clfreport lib modeltype debug devcheck algo X_train y_train X_test y_test param
        cores tune use_saved_model col_list fs) =
        (case fit lib algo X_train y_train of None \<Rightarrow> fs
         | Some c \<Rightarrow> fs(''probability.pkl'' \<mapsto> c)))
 \<and> list_all (\<lambda>ev. file_name ev = None \<or> file_name ev = Some ''probability.pkl'')
      (out_of (clfreport lib modeltype debug devcheck algo X_train y_train X_test y_test param
        cores tune use_saved_model col_list fs))
 \<and> (\<forall>f. f \<noteq> ''probability.pkl'' \<longrightarrow>
      files_of (clfreport lib modeltype debug devcheck algo X_train y_train X_test y_test param
        cores tune use_saved_model col_list fs) f = fs f)"
proof (intro conjI impI allI)
  assume a: "devcheck = ''notdev'' \<and> use_saved_model = PyTrue"
  show "out_of (clfreport lib modeltype debug devcheck algo X_train y_train X_test y_test param
        cores tune use_saved_model col_list fs) = [Load ''probability.pkl'']"
    using a by (simp add: clfreport_def notdev_saved)
  show "files_of (clfreport lib modeltype debug devcheck algo X_train y_train X_test y_test param
        cores tune use_saved_model col_list fs) = fs"
    using a by (simp add: clfreport_def notdev_saved)
next
  assume a: "devcheck = ''notdev'' \<and> use_saved_model \<noteq> PyTrue"
  show "out_of (clfreport lib modeltype debug devcheck algo X_train y_train X_test y_test param
        cores tune use_saved_model col_list fs) =
        (if debug then [Print [Str (nl # ''clf object right before fitting main model:'')]]
         else [])
        @ Fit algo X_train y_train
        # (case fit lib algo X_train y_train of None \<Rightarrow> []
           | Some c \<Rightarrow> [Save ''probability.pkl'' c])"
    using a by (simp add: clfreport_def notdev_fitted)
  show "files_of (clfreport lib modeltype debug devcheck algo X_train y_train X_test y_test param
        cores tune use_saved_model col_list fs) =
        (case fit lib algo X_train y_train of None \<Rightarrow> fs
         | Some c \<Rightarrow> fs(''probability.pkl'' \<mapsto> c))"
    using a by (simp add: clfreport_def notdev_fitted)
next
  show "list_all (\<lambda>ev. file_name ev = None \<or> file_name ev = Some ''probability.pkl'')
      (out_of (clfreport lib modeltype debug devcheck algo X_train y_train X_test y_test param
        cores tune use_saved_model col_list fs))"
    by (rule clfreport_file_events)
next
  fix f :: string
  assume "f \<noteq> ''probability.pkl''"
  then show "files_of (clfreport lib modeltype debug devcheck algo X_train y_train X_test y_test
        param cores tune use_saved_model col_list fs) f = fs f"
    by (rule clfreport_other_files)
qed

theorem clfreport_pickle_files_witness:
  "out_of (clfreport example_lib ''regression'' False ''notdev'' (Obj 0) example_X example_y
     example_X None () 4 True PyFalse None Map.empty)
     = [Fit (Obj 0) example_X example_y, Save ''probability.pkl'' (Obj 1)]
   \<and> files_of (clfreport example_lib ''regression'' False ''notdev'' (Obj 0) example_X example_y
     example_X None () 4 True PyFalse None Map.empty) = [''probability.pkl'' \<mapsto> Obj 1]
   \<and> out_of (clfreport example_lib ''regression'' False ''notdev'' (Obj 0) example_X example_y
     example_X None () 4 True PyTrue None [''probability.pkl'' \<mapsto> Obj 7])
     = [Load ''probability.pkl'']
   \<and> files_of (clfreport example_lib ''regression'' False ''notdev'' (Obj 0) example_X example_y
     example_X None () 4 True PyTrue None [''probability.pkl'' \<mapsto> Obj 7])
     = [''probability.pkl'' \<mapsto> Obj 7]"
  using clfreport_pickle_files [where devcheck = "''notdev''" and use_saved_model = PyFalse
      and lib = example_lib and modeltype = "''regression''" and debug = False and algo = "Obj 0"
      and X_train = example_X and y_train = example_y and X_test = example_X and y_test = None
      and param = "()" and cores = 4 and tune = True and col_list = None and fs = Map.empty]
    clfreport_pickle_files [where devcheck = "''notdev''" and use_saved_model = PyTrue
      and lib = example_lib and modeltype = "''regression''" and debug = False and algo = "Obj 0"
      and X_train = example_X and y_train = example_y and X_test = example_X and y_test = None
      and param = "()" and cores = 4 and tune = True and col_list = None
      and fs = "[''probability.pkl'' \<mapsto> Obj 7]"]
  by (simp add: example_lib_simps)

section \<open>clfreport: grid search\<close>

text \<open>
  C7, as the claim states it, fails where nothing is fitted: with devcheck='notdev' and
  use\_saved\_model True the supplied algo is not fitted; the model comes from the pickle
  file and the call returns its predictions.
\<close>

theorem clfreport_notdev_saved_model_no_fit:
  "filter is_fit (out_of (clfreport example_lib ''classification'' False ''notdev'' (Obj 0)
     example_X example_y example_X None () 4 False PyTrue None [''probability.pkl'' \<mapsto> Obj 7]))
     = []
   \<and> res_of (clfreport example_lib ''classification'' False ''notdev'' (Obj 0)
     example_X example_y example_X None () 4 False PyTrue None [''probability.pkl'' \<mapsto> Obj 7])
     = Inr (Pred (Some [1/2, 1/2]))"
  by (simp add: clfreport_def clfreport_notdev_def parts_seq example_lib_simps example_X_def
        column_def squeeze_def)

text \<open>
  C7, amended. Every fit that clfreport performs is on (X\_train, y\_train), and there is
  at most one per call. With devcheck='yesdev' and modeltype 'classification' or
  'regression', the estimator fitted is GridSearchCV(algo, param, cv=5,
  scoring='roc\_auc', n\_jobs=cores) when tune is true and the supplied algo itself when
  tune is false. With devcheck='notdev' and use\_saved\_model not True the supplied algo
  is fitted directly, whatever tune is. In every other case nothing is fitted. The
  wrapper is never the supplied algo itself.
\<close>

theorem clfreport_grid_search:
  "filter is_fit (out_of (clfreport lib modeltype debug devcheck algo X_train y_train X_test y_test
       param cores tune use_saved_model col_list fs)) =
   (if devcheck = ''yesdev'' \<and> (modeltype = ''classification'' \<or> modeltype = ''regression'') then
      [Fit (if tune then GridSearchCV algo param 5 ''roc_auc'' cores else algo) X_train y_train]
    else if devcheck = ''notdev'' \<and> use_saved_model \<noteq> PyTrue then [Fit algo X_train y_train]
    else [])
   \<and> GridSearchCV algo param 5 ''roc_auc'' cores \<noteq> algo"
  by (simp add: clfreport_fits GridSearchCV_not_self)

theorem clfreport_grid_search_witness:
  "filter is_fit (out_of (clfreport example_lib ''classification'' False ''yesdev'' (Obj 0)
     example_X example_y example_X (Some example_y) () 4 True PyFalse None Map.empty))
     = [Fit (GridSearchCV (Obj 0) () 5 ''roc_auc'' 4) example_X example_y]
   \<and> filter is_fit (out_of (clfreport example_lib ''classification'' False ''yesdev'' (Obj 0)
     example_X example_y example_X (Some example_y) () 4 False PyFalse None Map.empty))
     = [Fit (Obj 0) example_X example_y]
   \<and> filter is_fit (out_of (clfreport example_lib ''classification'' False ''notdev'' (Obj 0)
     example_X example_y example_X (Some example_y) () 4 True PyFalse None Map.empty))
     = [Fit (Obj 0) example_X example_y]"
  using clfreport_grid_search [where devcheck = "''yesdev''" and modeltype = "''classification''"
      and tune = True and lib = example_lib and debug = False and algo = "Obj 0"
      and X_train = example_X and y_train = example_y and X_test = example_X
      and y_test = "Some example_y" and param = "()" and cores = 4 and use_saved_model = PyFalse
      and col_list = None and fs = Map.empty]
    clfreport_grid_search [where devcheck = "''yesdev''" and modeltype = "''classification''"
      and tune = False and lib = example_lib and debug = False and algo = "Obj 0"
      and X_train = example_X and y_train = example_y and X_test = example_X
      and y_test = "Some example_y" and param = "()" and cores = 4 and use_saved_model = PyFalse
      and col_list = None and fs = Map.empty]
    clfreport_grid_search [where devcheck = "''notdev''" and modeltype = "''classification''"
      and tune = True and lib = example_lib and debug = False and algo = "Obj 0"
      and X_train = example_X and y_train = example_y and X_test = example_X
      and y_test = "Some example_y" and param = "()" and cores = 4 and use_saved_model = PyFalse
      and col_list = None and fs = Map.empty]
  by simp
section \<open>GenerateAUC: the explicit failure\<close>

text \<open>
  C2. GenerateAUC raises its explicit exception ('Data vectors are not equal length!')
  exactly when len(predictions) != len(labels). The check comes first: on that failure
  the call has emitted nothing, touched no file and called nothing of the library (its
  outcome does not depend on the library). No other explicit exception is raised by
  GenerateAUC, clfreport, the two metrics printers or find\_top\_three\_factors.
\<close>

theorem GenerateAUC_explicit_failure:
  "(res_of (GenerateAUC lib predictions labels aucType plotFlg allCutoffsFlg fs)
      = Inl (Exception ''Data vectors are not equal length!''))
     = (length predictions \<noteq> length labels)
   \<and> (length predictions \<noteq> length labels \<longrightarrow>
        GenerateAUC lib predictions labels aucType plotFlg allCutoffsFlg fs
          = ([], fs, Inl (Exception ''Data vectors are not equal length!'')))
   \<and> (\<forall>msg. msg \<noteq> ''Data vectors are not equal length!'' \<longrightarrow>
        res_of (GenerateAUC lib predictions labels aucType plotFlg allCutoffsFlg fs)
          \<noteq> Inl (Exception msg))
   \<and> no_explicit (clfreport lib modeltype debug devcheck algo X_train y_train X_test y_test param
        cores tune use_saved_model col_list)
   \<and> no_explicit (print_regression_metrics lib y_pred y_pred_class y_test)
   \<and> no_explicit (print_classification_metrics pr_auc roc_auc)
   \<and> no_explicit (find_top_three_factors lib debug X_train y_train X_test model_type
        use_saved_model)"
proof (intro conjI allI impI)
  show "(res_of (GenerateAUC lib predictions labels aucType plotFlg allCutoffsFlg fs)
      = Inl (Exception ''Data vectors are not equal length!''))
     = (length predictions \<noteq> length labels)"
  proof (cases "length predictions = length labels")
    case True
    then show ?thesis by (simp add: GenerateAUC_equal_nox)
  next
    case False
    then show ?thesis by (simp add: GenerateAUC_unequal)
  qed
next
  assume "length predictions \<noteq> length labels"
  then show "GenerateAUC lib predictions labels aucType plotFlg allCutoffsFlg fs
          = ([], fs, Inl (Exception ''Data vectors are not equal length!''))"
    by (rule GenerateAUC_unequal)
next
  fix msg :: string
  assume m: "msg \<noteq> ''Data vectors are not equal length!''"
  show "res_of (GenerateAUC lib predictions labels aucType plotFlg allCutoffsFlg fs)
          \<noteq> Inl (Exception msg)"
  proof (cases "length predictions = length labels")
    case True
    then show ?thesis by (simp add: GenerateAUC_equal_nox)
  next
    case False
    then show ?thesis using m by (simp add: GenerateAUC_unequal)
  qed
next
  show "no_explicit (clfreport lib modeltype debug devcheck algo X_train y_train X_test y_test
        param cores tune use_saved_model col_list)"
    by (rule nox_clfreport)
  show "no_explicit (print_regression_metrics lib y_pred y_pred_class y_test)"
    by (rule nox_print_regression_metrics)
  show "no_explicit (print_classification_metrics pr_auc roc_auc)"
    by (rule nox_print_classification_metrics)
  show "no_explicit (find_top_three_factors lib debug X_train y_train X_test model_type
        use_saved_model)"
    by (rule nox_find_top_three_factors)
qed

theorem GenerateAUC_explicit_failure_witness:
  "length [9/10 :: real] \<noteq> length [1, 0 :: real]
   \<and> GenerateAUC example_lib [9/10] [1, 0] ''SS'' PyTrue PyTrue Map.empty
       = ([], Map.empty, Inl (Exception ''Data vectors are not equal length!''))
   \<and> res_of (GenerateAUC example_lib [9/10, 4/5, 3/10] [1, 1, 0] ''SS'' PyFalse PyFalse Map.empty)
       \<noteq> Inl (Exception ''Data vectors are not equal length!'')"
proof -
  have unequal: "length [9/10 :: real] \<noteq> length [1, 0 :: real]"
    by simp
  have equal: "length [9/10, 4/5, 3/10 :: real] = length [1, 1, 0 :: real]"
    by simp
  note a = GenerateAUC_explicit_failure [where lib = example_lib and predictions = "[9/10]"
      and labels = "[1, 0]" and aucType = "''SS''" and plotFlg = PyTrue and allCutoffsFlg = PyTrue
      and fs = Map.empty and modeltype = "''regression''" and debug = False
      and devcheck = "''yesdev''" and algo = "Obj 0" and X_train = example_X
      and y_train = example_y and X_test = example_X and y_test = None and param = "()"
      and cores = 4 and tune = False and use_saved_model = PyFalse and col_list = None
      and y_pred = None and y_pred_class = None and pr_auc = 1 and roc_auc = 1
      and model_type = "''regression''"]
  note b = GenerateAUC_explicit_failure [where lib = example_lib
      and predictions = "[9/10, 4/5, 3/10]"
      and labels = "[1, 1, 0]" and aucType = "''SS''" and plotFlg = PyFalse
      and allCutoffsFlg = PyFalse
      and fs = Map.empty and modeltype = "''regression''" and debug = False
      and devcheck = "''yesdev''" and algo = "Obj 0" and X_train = example_X
      and y_train = example_y and X_test = example_X and y_test = None and param = "()"
      and cores = 4 and tune = False and use_saved_model = PyFalse and col_list = None
      and y_pred = None and y_pred_class = None and pr_auc = 1 and roc_auc = 1
      and model_type = "''regression''"]
  have first: "GenerateAUC example_lib [9/10] [1, 0] ''SS'' PyTrue PyTrue Map.empty
       = ([], Map.empty, Inl (Exception ''Data vectors are not equal length!''))"
    by (rule a [THEN conjunct2, THEN conjunct1, THEN mp, OF unequal])
  have second:
    "res_of (GenerateAUC example_lib [9/10, 4/5, 3/10] [1, 1, 0] ''SS'' PyFalse PyFalse Map.empty)
       \<noteq> Inl (Exception ''Data vectors are not equal length!'')"
    using b [THEN conjunct1] by simp
  show ?thesis
    by (intro conjI unequal first second)
qed

section \<open>GenerateAUC: the curve type\<close>

text \<open>
  C10. For equal-length predictions and labels and every aucType whose upper-cased form
  is neither 'SS' nor 'PR', GenerateAUC returns the same result as with 'SS' (after one
  more line on the console, and with the same files). aucType is matched through its
  upper-cased form only, so 'ss' and 'pr' behave exactly like 'SS' and 'PR'.
\<close>

theorem GenerateAUC_aucType:
  assumes "length predictions = length labels"
  shows "(upper aucType \<noteq> ''SS'' \<and> upper aucType \<noteq> ''PR'' \<longrightarrow>
            res_of (GenerateAUC lib predictions labels aucType plotFlg allCutoffsFlg fs)
              = res_of (GenerateAUC lib predictions labels ''SS'' plotFlg allCutoffsFlg fs)
          \<and> files_of (GenerateAUC lib predictions labels aucType plotFlg allCutoffsFlg fs)
              = files_of (GenerateAUC lib predictions labels ''SS'' plotFlg allCutoffsFlg fs)
          \<and> out_of (GenerateAUC lib predictions labels aucType plotFlg allCutoffsFlg fs)
              = Print [Str ''Drawing ROC curve with Sensitivity/Specificity'']
                # out_of (GenerateAUC lib predictions labels ''SS'' plotFlg allCutoffsFlg fs))
       \<and> (upper aucType = upper other \<longrightarrow>
            GenerateAUC lib predictions labels aucType plotFlg allCutoffsFlg fs
              = GenerateAUC lib predictions labels other plotFlg allCutoffsFlg fs)
       \<and> GenerateAUC lib predictions labels ''ss'' plotFlg allCutoffsFlg fs
              = GenerateAUC lib predictions labels ''SS'' plotFlg allCutoffsFlg fs
       \<and> GenerateAUC lib predictions labels ''pr'' plotFlg allCutoffsFlg fs
              = GenerateAUC lib predictions labels ''PR'' plotFlg allCutoffsFlg fs"
proof (intro conjI impI)
  assume a: "upper aucType \<noteq> ''SS'' \<and> upper aucType \<noteq> ''PR''"
  have e1: "GenerateAUC lib predictions labels aucType plotFlg allCutoffsFlg fs
     = then_do (print [Str ''Drawing ROC curve with Sensitivity/Specificity''])
         (GenerateAUC_SS lib predictions labels plotFlg allCutoffsFlg) fs"
    using a assms by (intro GenerateAUC_default_branch) simp_all
  have e2: "GenerateAUC lib predictions labels ''SS'' plotFlg allCutoffsFlg fs
     = GenerateAUC_SS lib predictions labels plotFlg allCutoffsFlg fs"
    by (rule GenerateAUC_SS_branch [OF assms])
  show "res_of (GenerateAUC lib predictions labels aucType plotFlg allCutoffsFlg fs)
              = res_of (GenerateAUC lib predictions labels ''SS'' plotFlg allCutoffsFlg fs)"
    unfolding e1 e2 by (simp add: parts_then_do)
  show "files_of (GenerateAUC lib predictions labels aucType plotFlg allCutoffsFlg fs)
              = files_of (GenerateAUC lib predictions labels ''SS'' plotFlg allCutoffsFlg fs)"
    unfolding e1 e2 by (simp add: parts_then_do)
  show "out_of (GenerateAUC lib predictions labels aucType plotFlg allCutoffsFlg fs)
              = Print [Str ''Drawing ROC curve with Sensitivity/Specificity'']
                # out_of (GenerateAUC lib predictions labels ''SS'' plotFlg allCutoffsFlg fs)"
    unfolding e1 e2 by (simp add: parts_then_do)
next
  assume "upper aucType = upper other"
  then show "GenerateAUC lib predictions labels aucType plotFlg allCutoffsFlg fs
              = GenerateAUC lib predictions labels other plotFlg allCutoffsFlg fs"
    by (rule GenerateAUC_by_upper)
next
  show "GenerateAUC lib predictions labels ''ss'' plotFlg allCutoffsFlg fs
              = GenerateAUC lib predictions labels ''SS'' plotFlg allCutoffsFlg fs"
    by (rule GenerateAUC_by_upper) (simp add: upper_literals)
  show "GenerateAUC lib predictions labels ''pr'' plotFlg allCutoffsFlg fs
              = GenerateAUC lib predictions labels ''PR'' plotFlg allCutoffsFlg fs"
    by (rule GenerateAUC_by_upper) (simp add: upper_literals)
qed

lemma upper_roc: "upper ''roc'' = ''ROC''"
  by code_simp

theorem GenerateAUC_aucType_witness:
  "length [9/10, 4/5, 3/10 :: real] = length [1, 1, 0 :: real]
   \<and> upper ''roc'' \<noteq> ''SS'' \<and> upper ''roc'' \<noteq> ''PR''
   \<and> res_of (GenerateAUC example_lib [9/10, 4/5, 3/10] [1, 1, 0] ''roc'' PyFalse PyFalse Map.empty)
       = Inr [(''AU_ROC'', 1), (''BestCutoff'', 4/5), (''BestTpr'', 1), (''BestFpr'', 0)]"
proof -
  have equal: "length [9/10, 4/5, 3/10 :: real] = length [1, 1, 0 :: real]"
    by simp
  have other: "upper ''roc'' \<noteq> ''SS'' \<and> upper ''roc'' \<noteq> ''PR''"
    by (simp add: upper_roc)
  have ss: "res_of (GenerateAUC example_lib [9/10, 4/5, 3/10] [1, 1, 0] ''SS'' PyFalse PyFalse
       Map.empty)
       = Inr [(''AU_ROC'', 1), (''BestCutoff'', 4/5), (''BestTpr'', 1), (''BestFpr'', 0)]"
    by (simp only: GenerateAUC_SS_branch [OF equal] example_SS parts_tuple)
  have same: "res_of (GenerateAUC example_lib [9/10, 4/5, 3/10] [1, 1, 0] ''roc'' PyFalse PyFalse
       Map.empty)
     = res_of (GenerateAUC example_lib [9/10, 4/5, 3/10] [1, 1, 0] ''SS'' PyFalse PyFalse
       Map.empty)"
    by (rule GenerateAUC_aucType [OF equal, where lib = example_lib and aucType = "''roc''"
      and plotFlg = PyFalse and allCutoffsFlg = PyFalse and fs = Map.empty and other = "''ROC''",
      THEN conjunct1, THEN mp, OF other, THEN conjunct1])
  have res: "res_of (GenerateAUC example_lib [9/10, 4/5, 3/10] [1, 1, 0] ''roc'' PyFalse PyFalse
       Map.empty)
     = Inr [(''AU_ROC'', 1), (''BestCutoff'', 4/5), (''BestTpr'', 1), (''BestFpr'', 0)]"
    using same ss by (rule trans)
  show ?thesis
    by (intro conjI equal other [THEN conjunct1] other [THEN conjunct2] res)
qed

section \<open>clfreport: the regression metrics\<close>

text \<open>
  C4 says that a regression run of clfreport with devcheck='yesdev' prints the RMSE
  between y\_test and the predictions y\_pred, and the MAE between the same two. The code
  gives the mean squared error \<^verbatim>\<open>y_pred_class\<close> instead of \<^verbatim>\<open>y_pred\<close>. In clfreport
  that variable is still \<^verbatim>\<open>None\<close>, so the run below (exact predictions: RMSE and MAE
  would both be 0) raises after the line 'Model accuracy:' and prints neither metric.
  Called on its own with \<^verbatim>\<open>y_pred_class = [4, 5]\<close>, the printer reports an RMSE of 2
  for predictions that equal the targets.
\<close>

theorem clfreport_regression_rmse_not_of_y_pred:
  "clfreport example_lib ''regression'' False ''yesdev'' (Obj 0) example_X example_y example_X
     (Some [6, 3]) () 4 False PyFalse None Map.empty
     = ([Print [Str [nl], Est (Obj 0)], Fit (Obj 0) example_X example_y,
         Print [Str ''##########################################################''],
         Print [Str ''Model accuracy:'']],
        Map.empty, Inl LibraryError)
   \<and> print_regression_metrics example_lib (Some [6, 3]) (Some [4, 5]) (Some [6, 3]) Map.empty
     = ([Print [Str ''##########################################################''],
         Print [Str ''Model accuracy:''],
         Print [Str (nl # ''RMSE error:''), Num 2],
         Print [Str (nl # ''Mean absolute error:''), Num 0, Str [nl]],
         Print [Str ''##########################################################'']],
        Map.empty, Inr ())"
proof (intro conjI)
  show "clfreport example_lib ''regression'' False ''yesdev'' (Obj 0) example_X example_y example_X
     (Some [6, 3]) () 4 False PyFalse None Map.empty
     = ([Print [Str [nl], Est (Obj 0)], Fit (Obj 0) example_X example_y,
         Print [Str ''##########################################################''],
         Print [Str ''Model accuracy:'']],
        Map.empty, Inl LibraryError)"
    by (simp add: clfreport_def clfreport_yesdev_def clfreport_yesdev_score_def
          print_regression_metrics_def metric_call_def example_lib_simps run
          example_X_simps Let_def)
  show "print_regression_metrics example_lib (Some [6, 3]) (Some [4, 5]) (Some [6, 3]) Map.empty
     = ([Print [Str ''##########################################################''],
         Print [Str ''Model accuracy:''],
         Print [Str (nl # ''RMSE error:''), Num 2],
         Print [Str (nl # ''Mean absolute error:''), Num 0, Str [nl]],
         Print [Str ''##########################################################'']],
        Map.empty, Inr ())"
    by (simp add: print_regression_metrics_def metric_call_def example_lib_simps run
          example_regression_metrics math_sqrt_def)
qed

section \<open>find\_top\_three\_factors: the pickle file\<close>

text \<open>
  C5 says that with use\_saved\_model=False the fitted factor-ranking model is saved as
  'factorlogit.pkl' for both model types. The save is inside the regression branch
  only: the classification call below fits and ranks, and leaves no file; the same
  call with model\_type='regression' saves the model.
\<close>

theorem find_top_three_factors_classification_not_saved:
  "find_top_three_factors example_lib False example_X example_y example_X ''classification''
     PyFalse Map.empty =
   ([Fit LogisticRegression example_X example_y], Map.empty,
    Inr ([''bp'', ''age''], [''age'', ''bmi''], [''bmi'', ''bp'']))
   \<and> find_top_three_factors example_lib False example_X example_y example_X ''regression''
     PyFalse Map.empty =
   ([Fit LinearRegression example_X example_y, Save ''factorlogit.pkl'' (Obj 1)],
    [''factorlogit.pkl'' \<mapsto> Obj 1],
    Inr ([''bp'', ''age''], [''age'', ''bmi''], [''bmi'', ''bp'']))"
  by (intro conjI example_factors example_factors_regression)

section \<open>GenerateAUC: the suggested cutoff\<close>


lemma tied_lib_simps:
  "roc_curve tied_lib t s
     = Some ([0, 0, 1/2, 1/2, 1], [0, 1/2, 1/2, 1, 1], [19/10, 9/10, 4/5, 3/10, 1/5])"
  "auc tied_lib xs ys = Some (3/4)"
  by (simp_all add: tied_lib_def)

text \<open>
  Where two points of the curve are nearest to (0, 1), the formatted print of line 250
  has arrays of two entries for its \<^verbatim>\<open>%0.2f\<close> conversions, and the call raises
  before it returns anything.
\<close>

lemma GenerateAUC_tied_curve_raises:
  "res_of (GenerateAUC tied_lib [9/10, 4/5, 3/10, 1/5] [1, 0, 1, 0] ''SS'' PyFalse PyFalse
     Map.empty) = Inl TypeError"
proof -
  have equal: "length [9/10, 4/5, 3/10, 1/5 :: real] = length [1, 0, 1, 0 :: real]"
    by simp
  have tie: "np_where_eq
       (map2 (+) (map (\<lambda>x. (x - 0)\<^sup>2) [0, 0, 1/2, 1/2, 1])
                 (map (\<lambda>x. (x - 1)\<^sup>2) [0, 1/2, 1/2, 1, 1 :: real]))
       (Min (set (map2 (+) (map (\<lambda>x. (x - 0)\<^sup>2) [0, 0, 1/2, 1/2, 1])
                           (map (\<lambda>x. (x - 1)\<^sup>2) [0, 1/2, 1/2, 1, 1 :: real]))))
     = 1 # 3 # []"
    by (simp add: np_where_eq_def power2_eq_square)
  have "res_of (GenerateAUC_SS tied_lib [9/10, 4/5, 3/10, 1/5] [1, 0, 1, 0] PyFalse PyFalse
      Map.empty) = Inl TypeError"
    by (rule GenerateAUC_SS_tie_raises [OF tied_lib_simps(1) tied_lib_simps(2) _ _ tie])
       simp_all
  then show ?thesis
    by (simp only: GenerateAUC_SS_branch [OF equal])
qed



section \<open>find\_top\_three\_factors: the ranking\<close>

text \<open>
  C1. For a call to find\_top\_three\_factors whose X\_test has n rows and at least three
  columns, and whose model has a coefficient vector with one entry per column: the
  returned triple (first\_fact, second\_fact, third\_fact) consists of three lists of
  length n, and for every row i the entries first\_fact[i], second\_fact[i],
  third\_fact[i] are the names of the columns with the largest, second largest and
  third largest product X\_test[i, j] * coef[j] of that row, in descending order of the
  product. The index sort of numpy is a parameter; it is taken to return an index sort
  of each row it is given.
\<close>

theorem find_top_three_factors_ranking:
  assumes wf: "\<forall>row\<in>set (df_values X_test). length row = length (df_columns X_test)"
    and cols: "3 \<le> length (df_columns X_test)"
    and model: "res_of (factor_model lib debug X_train y_train X_test model_type use_saved_model fs)
                  = Inr (Some clf)"
    and coef: "coef lib clf = Some carr"
    and vec: "coef_vector carr = Some w"
    and wlen: "length w = length (df_columns X_test)"
    and srt: "\<forall>row\<in>set (df_values X_test).
                is_argsort (map uminus (map2 (*) row w))
                  (argsort lib (map uminus (map2 (*) row w)))"
    and ret: "res_of (find_top_three_factors lib debug X_train y_train X_test model_type
                use_saved_model fs) = Inr (first_fact, second_fact, third_fact)"
  shows "length first_fact = length (df_values X_test)
       \<and> length second_fact = length (df_values X_test)
       \<and> length third_fact = length (df_values X_test)
       \<and> (\<forall>i<length (df_values X_test). \<exists>a b c.
             top_three (map2 (*) (df_values X_test ! i) w) a b c
           \<and> first_fact ! i = df_columns X_test ! a
           \<and> second_fact ! i = df_columns X_test ! b
           \<and> third_fact ! i = df_columns X_test ! c)"
proof -
  let ?n = "length (df_values X_test)"
  let ?rows = "map (\<lambda>row. map2 (*) row w) (df_values X_test)"
  from ret obtain x fs' where x: "res_of (factor_model lib debug X_train y_train X_test model_type
        use_saved_model fs) = Inr x"
    and rf: "res_of (rank_factors lib debug X_test x fs') = Inr (first_fact, second_fact, third_fact)"
    unfolding find_top_three_factors_def by (elim seq_InrE) blast
  from x model have "x = Some clf" by simp
  with rf have "res_of (rank_factors lib debug X_test (Some clf) fs')
      = Inr (first_fact, second_fact, third_fact)"
    by simp
  from rank_factors_Inr [OF this coef] obtain res n where
    res: "times_coef X_test carr = Inr res" and n: "len_column1 res = Inr n"
    and rr: "rank_rows lib (df_columns X_test) (take n (snd res)) ([], [], [])
               = Inr (first_fact, second_fact, third_fact)"
    by blast
  from res times_coef_vector [OF vec wlen wf cols]
  have res_eq: "res = (length (df_columns X_test), ?rows)"
    by simp
  with n have "n = ?n"
    by (auto simp: len_column1_def split: if_splits)
  with rr res_eq have rr': "rank_rows lib (df_columns X_test) ?rows ([], [], [])
      = Inr (first_fact, second_fact, third_fact)"
    by simp
  from rank_rows_Inr [OF rr'] have
    lens: "length first_fact = ?n" "length second_fact = ?n" "length third_fact = ?n"
    and each: "\<forall>i<?n.
        nth_e (df_columns X_test) (argsort lib (map uminus (?rows ! i)) ! 0) = Inr (first_fact ! i)
      \<and> nth_e (df_columns X_test) (argsort lib (map uminus (?rows ! i)) ! 1) = Inr (second_fact ! i)
      \<and> nth_e (df_columns X_test) (argsort lib (map uminus (?rows ! i)) ! 2) = Inr (third_fact ! i)"
    by auto
  have "\<exists>a b c. top_three (map2 (*) (df_values X_test ! i) w) a b c
           \<and> first_fact ! i = df_columns X_test ! a
           \<and> second_fact ! i = df_columns X_test ! b
           \<and> third_fact ! i = df_columns X_test ! c" if i: "i < ?n" for i
  proof -
    let ?p = "map2 (*) (df_values X_test ! i) w"
    let ?ix = "argsort lib (map uminus ?p)"
    from i have mem: "df_values X_test ! i \<in> set (df_values X_test)" by simp
    with srt have a: "is_argsort (map uminus ?p) ?ix" by blast
    from mem wf wlen cols have "3 \<le> length ?p" by simp
    from argsort_top_three [OF a this] have top: "top_three ?p (?ix ! 0) (?ix ! 1) (?ix ! 2)" .
    from each i have
      "nth_e (df_columns X_test) (?ix ! 0) = Inr (first_fact ! i)"
      "nth_e (df_columns X_test) (?ix ! 1) = Inr (second_fact ! i)"
      "nth_e (df_columns X_test) (?ix ! 2) = Inr (third_fact ! i)"
      by simp_all
    then have "first_fact ! i = df_columns X_test ! (?ix ! 0)"
      "second_fact ! i = df_columns X_test ! (?ix ! 1)"
      "third_fact ! i = df_columns X_test ! (?ix ! 2)"
      by (auto simp: nth_e_def split: if_splits)
    with top show ?thesis by blast
  qed
  with lens show ?thesis by blast
qed

theorem find_top_three_factors_ranking_witness:
  "res_of (find_top_three_factors example_lib False example_X example_y example_X
        ''classification'' PyFalse Map.empty)
        = Inr ([''bp'', ''age''], [''age'', ''bmi''], [''bmi'', ''bp''])
   \<and> length [''bp'', ''age''] = length (df_values example_X)
   \<and> length [''age'', ''bmi''] = length (df_values example_X)
   \<and> length [''bmi'', ''bp''] = length (df_values example_X)
   \<and> (\<exists>a b c.
         top_three (map2 (*) (df_values example_X ! 0) [1, -2, 3]) a b c
       \<and> [''bp'', ''age''] ! 0 = df_columns example_X ! a
       \<and> [''age'', ''bmi''] ! 0 = df_columns example_X ! b
       \<and> [''bmi'', ''bp''] ! 0 = df_columns example_X ! c)
   \<and> (\<exists>a b c.
         top_three (map2 (*) (df_values example_X ! 1) [1, -2, 3]) a b c
       \<and> [''bp'', ''age''] ! 1 = df_columns example_X ! a
       \<and> [''age'', ''bmi''] ! 1 = df_columns example_X ! b
       \<and> [''bmi'', ''bp''] ! 1 = df_columns example_X ! c)"
proof -
  have wf: "\<forall>row\<in>set (df_values example_X). length row = length (df_columns example_X)"
    by (simp add: example_X_simps)
  have cols: "3 \<le> length (df_columns example_X)"
    by (simp add: example_X_simps)
  have coef: "coef example_lib (Obj 1) = Some (A1 [1, -2, 3])"
    by (simp add: example_lib_simps)
  have vec: "coef_vector (A1 [1, -2, 3]) = Some [1, -2, 3]"
    by (simp add: coef_vector_def)
  have wlen: "length [1, -2, 3 :: real] = length (df_columns example_X)"
    by (simp add: example_X_simps)
  have ret: "res_of (find_top_three_factors example_lib False example_X example_y example_X
        ''classification'' PyFalse Map.empty)
        = Inr ([''bp'', ''age''], [''age'', ''bmi''], [''bmi'', ''bp''])"
    by (simp only: example_factors parts_tuple)
  have rows: "0 < length (df_values example_X)" "1 < length (df_values example_X)"
    by (simp_all add: example_X_simps)
  note ranking = find_top_three_factors_ranking [OF wf cols example_factor_model coef vec wlen
      example_argsorts ret]
  note each = ranking [THEN conjunct2, THEN conjunct2, THEN conjunct2]
  show ?thesis
    by (intro conjI ret ranking [THEN conjunct1]
          ranking [THEN conjunct2, THEN conjunct1]
          ranking [THEN conjunct2, THEN conjunct2, THEN conjunct1]
          each [THEN spec, THEN mp, OF rows(1)] each [THEN spec, THEN mp, OF rows(2)])
qed

end
